theory Spec2Isabelle
  imports Complex_Main "HOL-Library.AList"
begin

section \<open>Python values\<close>

text \<open>
  The grading engine (\<^verbatim>\<open>app/services/grading_service.py\<close>) is Python. A Python
  \<^verbatim>\<open>str\<close> is a sequence of Unicode code points, and the source uses literals beyond
  Latin-1, so a string is modelled as the list of its code points. \<open>py\<close> turns an
  ASCII literal into such a string.

  Python floats are modelled by exact reals: the rounding error of float arithmetic and
  the non-finite values \<^verbatim>\<open>inf\<close> and \<^verbatim>\<open>nan\<close> are outside the model.
\<close>

type_synonym pystr = "nat list"

definition py :: "string \<Rightarrow> pystr" where
  "py s = map of_char s"

text \<open>What \<^verbatim>\<open>json.loads\<close> returns, and what the dictionaries of the source hold.\<close>

datatype json =
    JNull
  | JBool bool
  | JInt int
  | JFloat real
  | JStr pystr
  | JArr "json list"
  | JObj "(pystr \<times> json) list"

text \<open>A \<^verbatim>\<open>dict\<close> keeps insertion order; a key occurs once.\<close>

type_synonym pydict = "(pystr \<times> json) list"

datatype pyerr =
    KeyError pystr
  | TypeError
  | AttributeError
  | ValueError
  | OtherError pystr

text \<open>\<^verbatim>\<open>d.get(k)\<close>: the value, or \<^verbatim>\<open>None\<close>.\<close>

definition dict_get :: "pydict \<Rightarrow> pystr \<Rightarrow> json" where
  "dict_get d k = (case map_of d k of None \<Rightarrow> JNull | Some v \<Rightarrow> v)"

text \<open>\<^verbatim>\<open>d.get(k, default)\<close>.\<close>

definition dict_get_default :: "pydict \<Rightarrow> pystr \<Rightarrow> json \<Rightarrow> json" where
  "dict_get_default d k dflt = (case map_of d k of None \<Rightarrow> dflt | Some v \<Rightarrow> v)"

text \<open>\<^verbatim>\<open>d[k]\<close> raises \<^verbatim>\<open>KeyError\<close> on a missing key.\<close>

definition dict_item :: "pydict \<Rightarrow> pystr \<Rightarrow> pyerr + json" where
  "dict_item d k = (case map_of d k of None \<Rightarrow> Inl (KeyError k) | Some v \<Rightarrow> Inr v)"

text \<open>Truth value of an object in a condition (\<^verbatim>\<open>if x:\<close>, \<^verbatim>\<open>not x\<close>).\<close>

fun truthy :: "json \<Rightarrow> bool" where
  "truthy JNull = False"
| "truthy (JBool b) = b"
| "truthy (JInt n) = (n \<noteq> 0)"
| "truthy (JFloat r) = (r \<noteq> 0)"
| "truthy (JStr s) = (s \<noteq> [])"
| "truthy (JArr xs) = (xs \<noteq> [])"
| "truthy (JObj kvs) = (kvs \<noteq> [])"

text \<open>
  \<^verbatim>\<open>float(x)\<close>: numbers and booleans convert, a string converts when Python's float
  syntax accepts it (the parameter \<open>fos\<close> stands for that library routine), anything
  else raises, which is \<open>None\<close> here.
\<close>

fun py_float :: "(pystr \<Rightarrow> real option) \<Rightarrow> json \<Rightarrow> real option" where
  "py_float fos (JInt n) = Some (of_int n)"
| "py_float fos (JFloat r) = Some r"
| "py_float fos (JBool b) = Some (if b then 1 else 0)"
| "py_float fos (JStr s) = fos s"
| "py_float fos JNull = None"
| "py_float fos (JArr xs) = None"
| "py_float fos (JObj kvs) = None"

text \<open>\<^verbatim>\<open>len(x)\<close>: defined on strings, lists and dicts.\<close>

fun py_len :: "json \<Rightarrow> pyerr + nat" where
  "py_len (JStr s) = Inr (length s)"
| "py_len (JArr xs) = Inr (length xs)"
| "py_len (JObj kvs) = Inr (length kvs)"
| "py_len JNull = Inl TypeError"
| "py_len (JBool b) = Inl TypeError"
| "py_len (JInt n) = Inl TypeError"
| "py_len (JFloat r) = Inl TypeError"

text \<open>The value of a number inside \<^verbatim>\<open>sum\<close>; a boolean counts as 0 or 1.\<close>

fun num_val :: "json \<Rightarrow> real option" where
  "num_val (JInt n) = Some (of_int n)"
| "num_val (JFloat r) = Some r"
| "num_val (JBool b) = Some (if b then 1 else 0)"
| "num_val JNull = None"
| "num_val (JStr s) = None"
| "num_val (JArr xs) = None"
| "num_val (JObj kvs) = None"

text \<open>\<^verbatim>\<open>sum(scores)\<close>: adding a non-number raises \<^verbatim>\<open>TypeError\<close>.\<close>

fun py_sum :: "json list \<Rightarrow> pyerr + real" where
  "py_sum [] = Inr 0"
| "py_sum (x # xs) =
     (case num_val x of
        None \<Rightarrow> Inl TypeError
      | Some r \<Rightarrow> (case py_sum xs of Inl e \<Rightarrow> Inl e | Inr s \<Rightarrow> Inr (r + s)))"

text \<open>\<^verbatim>\<open>round(x)\<close> of a float: to the nearest integer, a tie going to the even one.\<close>

definition py_round :: "real \<Rightarrow> int" where
  "py_round x =
     (let f = \<lfloor>x\<rfloor>; d = x - of_int f in
      if d < 1 / 2 then f
      else if 1 / 2 < d then f + 1
      else if even f then f else f + 1)"

section \<open>Strings\<close>

text \<open>\<^verbatim>\<open>str.isspace\<close>, which is also the class \<^verbatim>\<open>\s\<close> of a \<^verbatim>\<open>re\<close> pattern on \<^verbatim>\<open>str\<close>.\<close>

definition py_isspace :: "nat \<Rightarrow> bool" where
  "py_isspace c =
     ((9 \<le> c \<and> c \<le> 13) \<or> (28 \<le> c \<and> c \<le> 32) \<or> c = 133 \<or> c = 160 \<or> c = 5760
      \<or> (8192 \<le> c \<and> c \<le> 8202) \<or> c = 8232 \<or> c = 8233 \<or> c = 8239 \<or> c = 8287
      \<or> c = 12288)"

text \<open>\<^verbatim>\<open>s.find(c)\<close> and \<^verbatim>\<open>s.rfind(c)\<close> for one character; \<open>None\<close> is Python's \<open>-1\<close>.\<close>

fun find_char :: "nat \<Rightarrow> pystr \<Rightarrow> nat option" where
  "find_char c [] = None"
| "find_char c (x # xs) =
     (if x = c then Some 0 else map_option Suc (find_char c xs))"

fun rfind_char :: "nat \<Rightarrow> pystr \<Rightarrow> nat option" where
  "rfind_char c [] = None"
| "rfind_char c (x # xs) =
     (case rfind_char c xs of
        Some i \<Rightarrow> Some (Suc i)
      | None \<Rightarrow> (if x = c then Some 0 else None))"

text \<open>\<^verbatim>\<open>s[i:j]\<close> for \<open>0 \<le> i\<close>, \<open>0 \<le> j\<close>.\<close>

definition slice :: "pystr \<Rightarrow> nat \<Rightarrow> nat \<Rightarrow> pystr" where
  "slice s i j = take (j - i) (drop i s)"

definition rstrip :: "pystr \<Rightarrow> pystr" where
  "rstrip s = rev (dropWhile py_isspace (rev s))"

text \<open>\<^verbatim>\<open>text.replace('\t', '\\t')\<close>: a tab becomes a backslash and the letter t.\<close>

definition replace_tab :: "pystr \<Rightarrow> pystr" where
  "replace_tab s = concat (map (\<lambda>c. if c = 9 then [92, 116] else [c]) s)"

text \<open>\<^verbatim>\<open>s.startswith(p)\<close> and \<^verbatim>\<open>p in s\<close>.\<close>

fun startswith :: "pystr \<Rightarrow> pystr \<Rightarrow> bool" where
  "startswith s [] = True"
| "startswith [] (p # ps) = False"
| "startswith (c # cs) (p # ps) = (c = p \<and> startswith cs ps)"

fun py_in :: "pystr \<Rightarrow> pystr \<Rightarrow> bool" where
  "py_in p [] = (p = [])"
| "py_in p (c # cs) = (startswith (c # cs) p \<or> py_in p cs)"

section \<open>The JSON decoder: \<^verbatim>\<open>json.loads\<close>\<close>

text \<open>
  The decoder of Python's standard library, as the parser calls it. Its grammar: white
  space is blank, tab, line feed and carriage return; a string may hold raw control
  characters unless the decoder is strict (the flag \<open>strict\<close>, which
  \<^verbatim>\<open>json.loads(text, strict=False)\<close> clears); an object becomes a \<^verbatim>\<open>dict\<close>, a repeated key
  keeping its first position and its last value. The decoder's three non-standard
  literals for non-finite floats are not in the model, which rejects them.

  The recursion over nested values carries a counter that \<open>json_loads\<close> starts above
  the length of the text; every nested call is on a shorter text.
\<close>

definition json_ws :: "nat \<Rightarrow> bool" where
  "json_ws c = (c = 32 \<or> c = 9 \<or> c = 10 \<or> c = 13)"

definition skip_ws :: "pystr \<Rightarrow> pystr" where
  "skip_ws s = dropWhile json_ws s"

definition is_digit :: "nat \<Rightarrow> bool" where
  "is_digit c = (48 \<le> c \<and> c \<le> 57)"

definition hex_val :: "nat \<Rightarrow> nat option" where
  "hex_val c =
     (if 48 \<le> c \<and> c \<le> 57 then Some (c - 48)
      else if 97 \<le> c \<and> c \<le> 102 then Some (c - 87)
      else if 65 \<le> c \<and> c \<le> 70 then Some (c - 55)
      else None)"

text \<open>The four hexadecimal digits of a \<^verbatim>\<open>\uXXXX\<close> escape.\<close>

definition decode_u4 :: "pystr \<Rightarrow> (nat \<times> pystr) option" where
  "decode_u4 s =
     (case s of
        a # b # c # d # rest \<Rightarrow>
          (case (hex_val a, hex_val b, hex_val c, hex_val d) of
             (Some x, Some y, Some z, Some w) \<Rightarrow> Some (((x * 16 + y) * 16 + z) * 16 + w, rest)
           | _ \<Rightarrow> None)
      | _ \<Rightarrow> None)"

definition backslash :: "nat \<Rightarrow> nat option" where
  "backslash e =
     (if e = 34 then Some 34 else if e = 92 then Some 92 else if e = 47 then Some 47
      else if e = 98 then Some 8 else if e = 102 then Some 12 else if e = 110 then Some 10
      else if e = 114 then Some 13 else if e = 116 then Some 9 else None)"

definition cons_fst :: "'a \<Rightarrow> ('a list \<times> 'b) option \<Rightarrow> ('a list \<times> 'b) option" where
  "cons_fst c r = (case r of None \<Rightarrow> None | Some (g, rest) \<Rightarrow> Some (c # g, rest))"

text \<open>
  The text after an opening quote, up to the closing quote: the decoded string and what
  follows it. The counter bounds the number of characters and escapes read.
\<close>

fun scanstring :: "bool \<Rightarrow> nat \<Rightarrow> pystr \<Rightarrow> (pystr \<times> pystr) option" where
  "scanstring strict 0 s = None"
| "scanstring strict (Suc n) [] = None"
| "scanstring strict (Suc n) (c # cs) =
     (if c = 34 then Some ([], cs)
      else if c = 92 then
        (case cs of
           [] \<Rightarrow> None
         | e # r \<Rightarrow>
             (if e = 117 then
                (case decode_u4 r of
                   None \<Rightarrow> None
                 | Some (uni, r1) \<Rightarrow>
                     (if 55296 \<le> uni \<and> uni \<le> 56319 \<and> startswith r1 [92, 117] then
                        (case decode_u4 (drop 2 r1) of
                           None \<Rightarrow> None
                         | Some (uni2, r2) \<Rightarrow>
                             (if 56320 \<le> uni2 \<and> uni2 \<le> 57343 then
                                cons_fst (65536 + (uni - 55296) * 1024 + (uni2 - 56320))
                                  (scanstring strict n r2)
                              else cons_fst uni (scanstring strict n r1)))
                      else cons_fst uni (scanstring strict n r1)))
              else
                (case backslash e of
                   None \<Rightarrow> None
                 | Some ch \<Rightarrow> cons_fst ch (scanstring strict n r))))
      else if strict \<and> c \<le> 31 then None
      else cons_fst c (scanstring strict n cs))"

definition digits_val :: "pystr \<Rightarrow> nat" where
  "digits_val ds = foldl (\<lambda>a d. 10 * a + (d - 48)) 0 ds"

definition pow10 :: "int \<Rightarrow> real" where
  "pow10 e = (if 0 \<le> e then 10 ^ nat e else 1 / 10 ^ nat (- e))"

text \<open>
  A number, by the decoder's pattern: an optional minus, an integer part without a
  leading zero, an optional fraction, an optional exponent. Without fraction and
  exponent it is an \<^verbatim>\<open>int\<close>, otherwise a \<^verbatim>\<open>float\<close>.
\<close>

definition scan_number :: "pystr \<Rightarrow> (json \<times> pystr) option" where
  "scan_number s =
     (let neg = startswith s [45];
          s1 = (if neg then drop 1 s else s)
      in case s1 of
           [] \<Rightarrow> None
         | d # r \<Rightarrow>
             (if \<not> is_digit d then None
              else
                (let ip = (if d = 48 then [d] else takeWhile is_digit s1);
                     s2 = drop (length ip) s1;
                     has_frac = (case s2 of c # f # r2 \<Rightarrow> c = 46 \<and> is_digit f | _ \<Rightarrow> False);
                     fp = (if has_frac then takeWhile is_digit (drop 1 s2) else []);
                     s3 = (if has_frac then drop (1 + length fp) s2 else s2);
                     s3e = (case s3 of
                              c # r3 \<Rightarrow>
                                (if c = 101 \<or> c = 69 then
                                   (if startswith r3 [45] \<or> startswith r3 [43] then drop 1 r3 else r3)
                                 else [])
                            | [] \<Rightarrow> []);
                     ep = takeWhile is_digit s3e;
                     has_exp = (ep \<noteq> []);
                     eneg = (case s3 of c # r3 \<Rightarrow> startswith r3 [45] | [] \<Rightarrow> False);
                     s4 = (if has_exp then drop (length ep) s3e else s3);
                     sgn = (if neg then - 1 else 1)
                 in if \<not> has_frac \<and> \<not> has_exp then Some (JInt (sgn * int (digits_val ip)), s4)
                    else
                      Some (JFloat
                              (real_of_int sgn
                               * (real (digits_val ip) + real (digits_val fp) / 10 ^ length fp)
                               * pow10 (if eneg then - int (digits_val ep) else int (digits_val ep))),
                            s4))))"

text \<open>\<^verbatim>\<open>dict(pairs)\<close>\<close>

definition dict_of_pairs :: "(pystr \<times> json) list \<Rightarrow> pydict" where
  "dict_of_pairs pairs = foldl (\<lambda>d (k, v). AList.update k v d) [] pairs"

fun scan_once :: "bool \<Rightarrow> nat \<Rightarrow> pystr \<Rightarrow> (json \<times> pystr) option"
  and scan_members :: "bool \<Rightarrow> nat \<Rightarrow> pystr \<Rightarrow> ((pystr \<times> json) list \<times> pystr) option"
  and scan_elements :: "bool \<Rightarrow> nat \<Rightarrow> pystr \<Rightarrow> (json list \<times> pystr) option"
where
  "scan_once strict 0 s = None"
| "scan_once strict (Suc n) [] = None"
| "scan_once strict (Suc n) (c # cs) =
     (if c = 34 then
        (case scanstring strict (Suc (length cs)) cs of None \<Rightarrow> None | Some (str, r) \<Rightarrow> Some (JStr str, r))
      else if c = 123 then
        (case skip_ws cs of
           [] \<Rightarrow> None
         | x # r \<Rightarrow>
             (if x = 125 then Some (JObj [], r)
              else if x = 34 then
                (case scan_members strict n r of
                   None \<Rightarrow> None
                 | Some (pairs, r') \<Rightarrow> Some (JObj (dict_of_pairs pairs), r'))
              else None))
      else if c = 91 then
        (case skip_ws cs of
           [] \<Rightarrow> None
         | x # r \<Rightarrow>
             (if x = 93 then Some (JArr [], r)
              else
                (case scan_elements strict n (x # r) of
                   None \<Rightarrow> None
                 | Some (vs, r') \<Rightarrow> Some (JArr vs, r'))))
      else if startswith (c # cs) (py ''null'') then Some (JNull, drop 4 (c # cs))
      else if startswith (c # cs) (py ''true'') then Some (JBool True, drop 4 (c # cs))
      else if startswith (c # cs) (py ''false'') then Some (JBool False, drop 5 (c # cs))
      else scan_number (c # cs))"
| "scan_members strict 0 s = None"
| "scan_members strict (Suc n) s =
     (case scanstring strict (Suc (length s)) s of
        None \<Rightarrow> None
      | Some (key, r1) \<Rightarrow>
          (case skip_ws r1 of
             [] \<Rightarrow> None
           | c # r2 \<Rightarrow>
               (if c \<noteq> 58 then None
                else
                  (case scan_once strict n (skip_ws r2) of
                     None \<Rightarrow> None
                   | Some (v, r3) \<Rightarrow>
                       (case skip_ws r3 of
                          [] \<Rightarrow> None
                        | d # r4 \<Rightarrow>
                            (if d = 125 then Some ([(key, v)], r4)
                             else if d = 44 then
                               (case skip_ws r4 of
                                  [] \<Rightarrow> None
                                | q # r5 \<Rightarrow>
                                    (if q = 34 then
                                       (case scan_members strict n r5 of
                                          None \<Rightarrow> None
                                        | Some (pairs, r6) \<Rightarrow> Some ((key, v) # pairs, r6))
                                     else None))
                             else None))))))"
| "scan_elements strict 0 s = None"
| "scan_elements strict (Suc n) s =
     (case scan_once strict n s of
        None \<Rightarrow> None
      | Some (v, r1) \<Rightarrow>
          (case skip_ws r1 of
             [] \<Rightarrow> None
           | d # r2 \<Rightarrow>
               (if d = 93 then Some ([v], r2)
                else if d = 44 then
                  (case scan_elements strict n (skip_ws r2) of
                     None \<Rightarrow> None
                   | Some (vs, r3) \<Rightarrow> Some (v # vs, r3))
                else None)))"

text \<open>\<open>None\<close> is \<^verbatim>\<open>JSONDecodeError\<close>: no value, or text left after the value.\<close>

definition json_loads :: "bool \<Rightarrow> pystr \<Rightarrow> json option" where
  "json_loads strict s =
     (case scan_once strict (Suc (length s)) (skip_ws s) of
        None \<Rightarrow> None
      | Some (v, r) \<Rightarrow> (if skip_ws r = [] then Some v else None))"

section \<open>The response parser: \<^verbatim>\<open>ExamGrader.parse_grading_response\<close>\<close>

subsection \<open>Fenced code blocks\<close>

text \<open>
  \<^verbatim>\<open>re.findall(r'```(?:json)?\s*([\s\S]*?)\s*```', response_text, re.IGNORECASE)\<close>:
  the bodies of the fenced blocks, from left to right. A match starts at three
  backquotes; the word json (in any case) and white space after it are skipped; the body
  is the shortest text followed by optional white space and three more backquotes; the
  search goes on behind them. Where an opening fence has no closing fence behind it, no
  alternative of the pattern matches either, and the search moves one character on.
\<close>

definition fence :: pystr where
  "fence = [96, 96, 96]"

text \<open>The word json under \<^verbatim>\<open>re.IGNORECASE\<close>; the long s (code point 383) folds to s.\<close>

definition json_word :: "pystr \<Rightarrow> bool" where
  "json_word r =
     (case r of
        c1 # c2 # c3 # c4 # rest \<Rightarrow>
          (c1 = 106 \<or> c1 = 74) \<and> (c2 = 115 \<or> c2 = 83 \<or> c2 = 383) \<and> (c3 = 111 \<or> c3 = 79)
          \<and> (c4 = 110 \<or> c4 = 78)
      | _ \<Rightarrow> False)"

definition closes :: "pystr \<Rightarrow> bool" where
  "closes t = startswith (dropWhile py_isspace t) fence"

fun lazy_group :: "pystr \<Rightarrow> (pystr \<times> pystr) option" where
  "lazy_group [] = None"
| "lazy_group (c # cs) =
     (if closes (c # cs) then Some ([], drop 3 (dropWhile py_isspace (c # cs)))
      else cons_fst c (lazy_group cs))"

definition match_at :: "pystr \<Rightarrow> (pystr \<times> pystr) option" where
  "match_at s =
     (if startswith s fence then
        (let r = drop 3 s;
             r1 = (if json_word r then drop 4 r else r)
         in lazy_group (dropWhile py_isspace r1))
      else None)"

lemma startswith_iff: "startswith s p \<longleftrightarrow> (\<exists>r. s = p @ r)"
  by (induction s p rule: startswith.induct) auto

lemma closes_shorter:
  assumes "closes t"
  shows "length (drop 3 (dropWhile py_isspace t)) < length t"
proof -
  from assms obtain r where r: "dropWhile py_isspace t = fence @ r"
    unfolding closes_def startswith_iff by blast
  have "length (dropWhile py_isspace t) \<le> length t"
    by (rule length_dropWhile_le)
  then show ?thesis
    unfolding r by (simp add: fence_def)
qed

lemma lazy_group_shorter: "lazy_group t = Some (g, rest) \<Longrightarrow> length rest < length t"
proof (induction t arbitrary: g)
  case Nil
  then show ?case by simp
next
  case (Cons c cs)
  show ?case
  proof (cases "closes (c # cs)")
    case True
    then have "rest = drop 3 (dropWhile py_isspace (c # cs))"
      using Cons.prems by (simp del: dropWhile.simps)
    then show ?thesis
      using closes_shorter [OF True] by (simp del: dropWhile.simps)
  next
    case False
    with Cons.prems obtain g' where "lazy_group cs = Some (g', rest)"
      by (auto simp: cons_fst_def split: option.splits)
    from Cons.IH [OF this] show ?thesis by simp
  qed
qed

lemma match_at_shorter: "match_at s = Some (g, rest) \<Longrightarrow> length rest < length s"
proof -
  assume m: "match_at s = Some (g, rest)"
  define r1 where "r1 = (if json_word (drop 3 s) then drop 4 (drop 3 s) else drop 3 s)"
  have "lazy_group (dropWhile py_isspace r1) = Some (g, rest)"
    using m by (auto simp: match_at_def r1_def Let_def split: if_splits)
  then have "length rest < length (dropWhile py_isspace r1)"
    by (rule lazy_group_shorter)
  also have "\<dots> \<le> length r1"
    by (rule length_dropWhile_le)
  also have "\<dots> \<le> length s"
    by (simp add: r1_def)
  finally show ?thesis .
qed

function code_blocks :: "pystr \<Rightarrow> pystr list" where
  "code_blocks s =
     (case match_at s of
        Some (g, rest) \<Rightarrow> g # code_blocks rest
      | None \<Rightarrow> (case s of [] \<Rightarrow> [] | c # cs \<Rightarrow> code_blocks cs))"
  by pat_completeness auto
termination
  by (relation "measure length") (auto dest: match_at_shorter)

declare code_blocks.simps [simp del]

text \<open>\<^verbatim>\<open>sorted(code_blocks, key=len, reverse=True)\<close>: longest first, stable.\<close>

definition sorted_blocks :: "pystr list \<Rightarrow> pystr list" where
  "sorted_blocks blocks = sort_key (\<lambda>b. - int (length b)) blocks"

subsection \<open>The parser\<close>

text \<open>
  \<^verbatim>\<open>try_parse\<close>: tabs are replaced, then the text is decoded; a decoding error gives
  \<^verbatim>\<open>None\<close>.
\<close>

definition try_parse :: "pystr \<Rightarrow> json option" where
  "try_parse text = json_loads False (replace_tab text)"

text \<open>
  \<^verbatim>\<open>clean_analysis\<close>: a false value gives the empty string; a string is rewritten (the
  rewriting itself, four substitutions, is the parameter \<open>clean\<close>); any other value has no
  \<^verbatim>\<open>replace\<close> method, and the call raises.
\<close>

definition clean_analysis :: "(pystr \<Rightarrow> pystr) \<Rightarrow> json \<Rightarrow> pyerr + json" where
  "clean_analysis clean analysis_text =
     (if \<not> truthy analysis_text then Inr (JStr [])
      else (case analysis_text of JStr t \<Rightarrow> Inr (JStr (clean t)) | _ \<Rightarrow> Inl AttributeError))"

text \<open>
  \<^verbatim>\<open>max(0, min(score, max_score))\<close>: Python returns the integer 0 unless the other
  argument is greater.
\<close>

definition clamp_score :: "real \<Rightarrow> real \<Rightarrow> json" where
  "clamp_score sc max_score =
     (let m = (if max_score < sc then max_score else sc) in
      if m > 0 then JFloat m else JInt 0)"

text \<open>
  \<^verbatim>\<open>process_result\<close>: \<^verbatim>\<open>None\<close> for a false value or a value that is not a dict; a
  \<^verbatim>\<open>score\<close> that is there is converted and clamped, 0 when it does not convert; an
  \<^verbatim>\<open>analysis\<close> that is there is cleaned.
\<close>

definition process_result ::
  "(pystr \<Rightarrow> real option) \<Rightarrow> (pystr \<Rightarrow> pystr) \<Rightarrow> real \<Rightarrow> json \<Rightarrow> pyerr + pydict option" where
  "process_result fos clean max_score result =
     (if \<not> truthy result then Inr None
      else
        (case result of
           JObj d \<Rightarrow>
             (let d1 =
                (case map_of d (py ''score'') of
                   None \<Rightarrow> d
                 | Some v \<Rightarrow>
                     (case py_float fos v of
                        Some sc \<Rightarrow> AList.update (py ''score'') (clamp_score sc max_score) d
                      | None \<Rightarrow> AList.update (py ''score'') (JInt 0) d))
              in case map_of d1 (py ''analysis'') of
                   None \<Rightarrow> Inr (Some d1)
                 | Some a \<Rightarrow>
                     (case clean_analysis clean a of
                        Inl e \<Rightarrow> Inl e
                      | Inr a' \<Rightarrow> Inr (Some (AList.update (py ''analysis'') a' d1))))
         | _ \<Rightarrow> Inr None))"

text \<open>
  The loop over the fenced blocks: a block is tried when it has an opening brace with a
  closing brace behind it; the first block that decodes to a true value which
  \<^verbatim>\<open>process_result\<close> accepts is returned. \<open>Inr None\<close> means that no block was.
\<close>

fun try_blocks ::
  "(pystr \<Rightarrow> real option) \<Rightarrow> (pystr \<Rightarrow> pystr) \<Rightarrow> real \<Rightarrow> pystr list \<Rightarrow> pyerr + pydict option" where
  "try_blocks fos clean max_score [] = Inr None"
| "try_blocks fos clean max_score (block # blocks) =
     (case (find_char 123 block, rfind_char 125 block) of
        (Some start, Some end) \<Rightarrow>
          (if end > start then
             (case try_parse (slice block start (end + 1)) of
                None \<Rightarrow> try_blocks fos clean max_score blocks
              | Some res \<Rightarrow>
                  (if truthy res then
                     (case process_result fos clean max_score res of
                        Inl e \<Rightarrow> Inl e
                      | Inr (Some valid_res) \<Rightarrow> Inr (Some valid_res)
                      | Inr None \<Rightarrow> try_blocks fos clean max_score blocks)
                   else try_blocks fos clean max_score blocks))
           else try_blocks fos clean max_score blocks)
      | _ \<Rightarrow> try_blocks fos clean max_score blocks)"

text \<open>
  The second attempt, on the text from its first opening brace to its last closing
  brace: either a result, or the text that the repair step goes on with. An exception
  inside this attempt is caught, and the repair step then starts from the whole text.
\<close>

definition brace_attempt ::
  "(pystr \<Rightarrow> real option) \<Rightarrow> (pystr \<Rightarrow> pystr) \<Rightarrow> real \<Rightarrow> pystr \<Rightarrow> pydict + pystr" where
  "brace_attempt fos clean max_score response_text =
     (case find_char 123 response_text of
        None \<Rightarrow> Inr response_text
      | Some start_idx \<Rightarrow>
          (case rfind_char 125 response_text of
             None \<Rightarrow> Inr (drop start_idx response_text)
           | Some end_idx \<Rightarrow>
               (if end_idx > start_idx then
                  (let json_str = slice response_text start_idx (end_idx + 1) in
                   case try_parse json_str of
                     None \<Rightarrow> Inr json_str
                   | Some res \<Rightarrow>
                       (if truthy res then
                          (case process_result fos clean max_score res of
                             Inl e \<Rightarrow> Inr response_text
                           | Inr (Some valid_res) \<Rightarrow> Inl valid_res
                           | Inr None \<Rightarrow> Inr json_str)
                        else Inr json_str))
                else Inr (drop start_idx response_text))))"

text \<open>
  The repair: trailing white space is stripped, a quote is appended when the number of
  quotes is odd, and as many closing braces as are missing.
\<close>

definition repair :: "pystr \<Rightarrow> pystr" where
  "repair json_str =
     (let s1 = rstrip json_str;
          s2 = (if count_list s1 34 mod 2 \<noteq> 0 then s1 @ [34] else s1);
          open_braces = count_list s2 123;
          close_braces = count_list s2 125
      in if open_braces > close_braces then s2 @ replicate (open_braces - close_braces) 125
         else s2)"

definition parse_grading_response ::
  "(pystr \<Rightarrow> real option) \<Rightarrow> (pystr \<Rightarrow> pystr) \<Rightarrow> pystr \<Rightarrow> real \<Rightarrow> pyerr + pydict option" where
  "parse_grading_response fos clean response_text max_score =
     (case try_blocks fos clean max_score (sorted_blocks (code_blocks response_text)) of
        Inl e \<Rightarrow> Inl e
      | Inr (Some valid_res) \<Rightarrow> Inr (Some valid_res)
      | Inr None \<Rightarrow>
          (case brace_attempt fos clean max_score response_text of
             Inl valid_res \<Rightarrow> Inr (Some valid_res)
           | Inr json_str \<Rightarrow>
               (case try_parse (repair json_str) of
                  None \<Rightarrow> Inr None
                | Some res \<Rightarrow>
                    (if truthy res then process_result fos clean max_score res
                     else Inr None))))"

section \<open>Score aggregation: \<^verbatim>\<open>ExamGrader.combine_results_v2\<close>\<close>

text \<open>The entries of \<^verbatim>\<open>questions_to_grade\<close>: one dictionary per question.\<close>

record q_item =
  q_id :: json
  q_group :: json
  unique_id :: pystr
  box_2d :: json
  q_score :: json

text \<open>
  The point value of a question, as both the grading loop and \<^verbatim>\<open>combine_results_v2\<close>
  resolve it: the recorded value converted by \<^verbatim>\<open>float\<close>, the caller's default when
  the value is \<^verbatim>\<open>None\<close> or does not convert.
\<close>

definition current_max_score_of :: "(pystr \<Rightarrow> real option) \<Rightarrow> real \<Rightarrow> json \<Rightarrow> real" where
  "current_max_score_of fos default_max_score v =
     (if v = JNull then default_max_score
      else (case py_float fos v of Some r \<Rightarrow> r | None \<Rightarrow> default_max_score))"

text \<open>\<^verbatim>\<open>[r['score'] for r in question_results.values()]\<close>\<close>

fun scores_of :: "(pystr \<times> pydict) list \<Rightarrow> pyerr + json list" where
  "scores_of [] = Inr []"
| "scores_of ((m, r) # rest) =
     (case dict_item r (py ''score'') of
        Inl e \<Rightarrow> Inl e
      | Inr v \<Rightarrow> (case scores_of rest of Inl e \<Rightarrow> Inl e | Inr vs \<Rightarrow> Inr (v # vs)))"

text \<open>
  The mean of the scores, rounded to a half point and clamped:
  \<^verbatim>\<open>round(avg_score * 2) / 2\<close>, then \<^verbatim>\<open>max(0, min(final_score, current_max_score))\<close>;
  0 when there is no score at all.
\<close>

definition final_score_of :: "json list \<Rightarrow> real \<Rightarrow> pyerr + real" where
  "final_score_of scores current_max_score =
     (if length scores > 0 then
        (case py_sum scores of
           Inl e \<Rightarrow> Inl e
         | Inr s \<Rightarrow>
             (let avg_score = s / real (length scores);
                  final_score = real_of_int (py_round (avg_score * 2)) / 2
              in Inr (max 0 (min final_score current_max_score))))
      else Inr 0)"

text \<open>The four comments of the source: correct, mostly correct, partially correct, incorrect.\<close>

definition comment_correct :: pystr where
  "comment_correct = [27491, 30830]"

definition comment_mostly :: pystr where
  "comment_mostly = [22522, 26412, 27491, 30830]"

definition comment_partial :: pystr where
  "comment_partial = [37096, 20998, 27491, 30830]"

definition comment_wrong :: pystr where
  "comment_wrong = [38169, 35823]"

definition is_correct_of :: "real \<Rightarrow> real \<Rightarrow> bool" where
  "is_correct_of final_score current_max_score = (final_score \<ge> current_max_score * (6 / 10))"

definition comment_of :: "real \<Rightarrow> real \<Rightarrow> pystr" where
  "comment_of final_score current_max_score =
     (if is_correct_of final_score current_max_score then comment_correct
      else if final_score \<ge> current_max_score * (5 / 10) then comment_mostly
      else if final_score > 0 then comment_partial
      else comment_wrong)"

text \<open>The first provider entry with a non-empty \<^verbatim>\<open>analysis\<close>, else the empty string.\<close>

fun first_analysis :: "(pystr \<times> pydict) list \<Rightarrow> json" where
  "first_analysis [] = JStr []"
| "first_analysis ((m, res) # rest) =
     (if truthy (dict_get res (py ''analysis'')) then dict_get res (py ''analysis'')
      else first_analysis rest)"

text \<open>The fallback: the longest non-empty \<^verbatim>\<open>comment\<close>, the first one winning a tie.\<close>

fun longest_comment :: "json \<Rightarrow> (pystr \<times> pydict) list \<Rightarrow> pyerr + json" where
  "longest_comment a [] = Inr a"
| "longest_comment a ((m, res) # rest) =
     (let c = dict_get res (py ''comment'') in
      if truthy c then
        (case py_len c of
           Inl e \<Rightarrow> Inl e
         | Inr n \<Rightarrow>
             (case py_len a of
                Inl e \<Rightarrow> Inl e
              | Inr k \<Rightarrow> longest_comment (if n > k then c else a) rest))
      else longest_comment a rest)"

definition analysis_of :: "(pystr \<times> pydict) list \<Rightarrow> pyerr + json" where
  "analysis_of question_results =
     (let a = first_analysis question_results in
      if truthy a then Inr a else longest_comment a question_results)"

text \<open>\<^verbatim>\<open>s.rsplit('-', 1)\<close> for a string that contains the separator.\<close>

fun rsplit_last :: "nat \<Rightarrow> pystr \<Rightarrow> (pystr \<times> pystr) option" where
  "rsplit_last sep [] = None"
| "rsplit_last sep (c # cs) =
     (case rsplit_last sep cs of
        Some (a, b) \<Rightarrow> Some (c # a, b)
      | None \<Rightarrow> (if c = sep then Some ([], cs) else None))"

record question_result =
  question_id :: pystr
  score :: real
  max_score :: real
  is_correct :: bool
  comment :: pystr
  analysis :: json
  model_scores :: "(pystr \<times> pydict) list"
  res_box_2d :: json
  group_sub :: "(pystr \<times> pystr) option"

record exam_report =
  details :: "(pystr \<times> question_result) list"
  total_score :: real
  max_total_score :: real
  accuracy :: real
  correct_count :: nat
  total_count :: nat

text \<open>
  \<^verbatim>\<open>q_info_map = {q.get('unique_id'): q for q in questions_info if q.get('unique_id')}\<close>
  and \<^verbatim>\<open>q_info_map.get(q_id, {})\<close>: the last question with that key wins; a key that is
  not there gives the empty dictionary, whose \<^verbatim>\<open>score\<close> and \<^verbatim>\<open>box_2d\<close> are
  \<^verbatim>\<open>None\<close>.
\<close>

definition q_info_of :: "q_item list \<Rightarrow> pystr \<Rightarrow> q_item option" where
  "q_info_of questions_info uid =
     map_of (rev (map (\<lambda>q. (unique_id q, q)) (filter (\<lambda>q. unique_id q \<noteq> []) questions_info))) uid"

text \<open>The body of the loop over \<^verbatim>\<open>all_results.items()\<close>, for one question.\<close>

definition combine_question ::
  "(pystr \<Rightarrow> real option) \<Rightarrow> q_item list \<Rightarrow> real \<Rightarrow> pystr \<Rightarrow> (pystr \<times> pydict) list
     \<Rightarrow> pyerr + question_result" where
  "combine_question fos questions_info default_max_score qid question_results =
     (let q_info = q_info_of questions_info qid;
          current_max_score =
            current_max_score_of fos default_max_score
              (case q_info of None \<Rightarrow> JNull | Some q \<Rightarrow> q_score q)
      in case scores_of question_results of
           Inl e \<Rightarrow> Inl e
         | Inr scores \<Rightarrow>
            (case final_score_of scores current_max_score of
               Inl e \<Rightarrow> Inl e
             | Inr final_score \<Rightarrow>
                (case analysis_of question_results of
                   Inl e \<Rightarrow> Inl e
                 | Inr a \<Rightarrow>
                     Inr \<lparr> question_id = qid,
                           score = final_score,
                           max_score = current_max_score,
                           is_correct = is_correct_of final_score current_max_score,
                           comment = comment_of final_score current_max_score,
                           analysis = a,
                           model_scores = question_results,
                           res_box_2d = (case q_info of None \<Rightarrow> JNull | Some q \<Rightarrow> box_2d q),
                           group_sub = rsplit_last 45 qid \<rparr>)))"

fun combine_all ::
  "(pystr \<Rightarrow> real option) \<Rightarrow> q_item list \<Rightarrow> real \<Rightarrow> (pystr \<times> (pystr \<times> pydict) list) list
     \<Rightarrow> pyerr + (pystr \<times> question_result) list" where
  "combine_all fos questions_info default_max_score [] = Inr []"
| "combine_all fos questions_info default_max_score ((qid, question_results) # rest) =
     (case combine_question fos questions_info default_max_score qid question_results of
        Inl e \<Rightarrow> Inl e
      | Inr r \<Rightarrow>
         (case combine_all fos questions_info default_max_score rest of
            Inl e \<Rightarrow> Inl e
          | Inr rs \<Rightarrow> Inr ((qid, r) # rs)))"

definition combine_results_v2 ::
  "(pystr \<Rightarrow> real option) \<Rightarrow> (pystr \<times> (pystr \<times> pydict) list) list \<Rightarrow> q_item list \<Rightarrow> real
     \<Rightarrow> pyerr + exam_report" where
  "combine_results_v2 fos all_results questions_info default_max_score =
     (case combine_all fos questions_info default_max_score all_results of
        Inl e \<Rightarrow> Inl e
      | Inr final_results \<Rightarrow>
         (let total = sum_list (map (\<lambda>(k, r). score r) final_results);
              max_total = sum_list (map (\<lambda>(k, r). max_score r) final_results)
          in Inr \<lparr> details = final_results,
                   total_score = total,
                   max_total_score = max_total,
                   accuracy = (if max_total > 0 then total / max_total else 0),
                   correct_count = length (filter (\<lambda>(k, r). is_correct r) final_results),
                   total_count = length final_results \<rparr>))"

section \<open>The environment of a grading run\<close>

text \<open>
  What the engine gets from outside is a parameter of the model: the provider's answer
  to a request, the file system's answer to a removal, and the library routines that
  the claims do not depend on.
\<close>

text \<open>
  The outcome of one provider request, as \<^verbatim>\<open>grade_with_model\<close> and
  \<^verbatim>\<open>analyze_exam_structure\<close> see it: the text taken from the response
  (\<^verbatim>\<open>content\<close>), an exception of the request itself, an exception elsewhere between
  the writing of the image artifact and the parsing (client set-up, reading the
  artifact, decoding the response), or an exception before the artifact is written.
\<close>

datatype provider_outcome =
    Content pystr
  | ApiRaises pystr
  | SetupRaises pystr
  | PreprocessRaises pystr

datatype remove_outcome = Removed | PermissionDenied | RemoveRaises

datatype fs_event = WriteArtifact | RemoveAttempt | CleanupWarning

record world =
  float_of_str :: "pystr \<Rightarrow> real option"
  clean_text :: "pystr \<Rightarrow> pystr"
  repr_other :: "json \<Rightarrow> pystr"
  describe :: "pyerr \<Rightarrow> pystr"
  getenv :: "pystr \<Rightarrow> pystr option"
  respond :: "pystr \<Rightarrow> json \<Rightarrow> json \<Rightarrow> provider_outcome"
  discover :: "pystr \<Rightarrow> provider_outcome"
  artifact_existed :: bool
  remove_result :: "nat \<Rightarrow> remove_outcome"
  mark_raises :: "pystr option"
  save_raises :: "pystr option"

section \<open>Credentials and the availability listing\<close>

text \<open>
  \<^verbatim>\<open>ExamGrader.__init__\<close>: the given credentials, or those of the three environment
  variables when none is given; entries without a value are dropped.
\<close>

definition init_api_keys ::
  "(pystr \<Rightarrow> pystr option) \<Rightarrow> (pystr \<times> pystr option) list \<Rightarrow> (pystr \<times> pystr) list" where
  "init_api_keys env api_keys =
     (let keys =
        (if api_keys = [] then
           [(py ''qwen-vl-max'', env (py ''DASHSCOPE_API_KEY'')),
            (py ''claude'', env (py ''ANTHROPIC_API_KEY'')),
            (py ''gemini-3-pro'', env (py ''XHUOAI_API_KEY''))]
         else api_keys)
      in concat (map (\<lambda>(k, v). (case v of None \<Rightarrow> [] | Some x \<Rightarrow> (if x = [] then [] else [(k, x)])))
                     keys))"

definition name_qwen :: pystr where
  "name_qwen = [81, 119, 101, 110, 45, 86, 76, 45, 77, 97, 120, 32, 40, 38463, 37324, 20113, 41]"

definition name_gemini :: pystr where
  "name_gemini =
     [71, 101, 109, 105, 110, 105, 32, 51, 32, 80, 114, 111, 32, 40, 88, 104, 117, 111, 65, 73, 41]"

definition name_glm :: pystr where
  "name_glm = [71, 76, 77, 45, 52, 86, 32, 40, 26234, 35889, 65, 73, 41]"

definition msg_key_missing :: pystr where
  "msg_key_missing = [26410, 37197, 32622, 32, 65, 80, 73, 32, 75, 101, 121]"

record model_entry =
  model_id :: pystr
  model_name :: pystr
  model_status :: pystr
  available :: bool
  model_error :: "pystr option"

definition check_model :: "(pystr \<times> pystr) list \<Rightarrow> pystr \<times> pystr \<Rightarrow> model_entry" where
  "check_model api_keys m =
     (if fst m \<in> fst ` set api_keys then
        \<lparr> model_id = fst m, model_name = snd m, model_status = py ''available'',
          available = True, model_error = None \<rparr>
      else
        \<lparr> model_id = fst m, model_name = snd m, model_status = py ''unavailable'',
          available = False, model_error = Some msg_key_missing \<rparr>)"

definition check_available_models :: "(pystr \<times> pystr) list \<Rightarrow> model_entry list" where
  "check_available_models api_keys =
     map (check_model api_keys)
       [(py ''qwen-vl-max'', name_qwen), (py ''gemini-3-pro'', name_gemini),
        (py ''glm-4v'', name_glm)]"

section \<open>One provider call: \<^verbatim>\<open>ExamGrader.grade_with_model\<close>\<close>

definition msg_no_key_prefix :: pystr where
  "msg_no_key_prefix = [26410, 25214, 21040]"

definition msg_no_key_suffix :: pystr where
  "msg_no_key_suffix = [30340, 65, 80, 73, 23494, 38053]"

definition msg_key_not_configured :: pystr where
  "msg_key_not_configured = [65, 80, 73, 23494, 38053, 26410, 37197, 32622]"

definition msg_unparseable :: pystr where
  "msg_unparseable = [26080, 27861, 35299, 26512, 27169, 22411, 21709, 24212]"

definition msg_no_valid_json :: pystr where
  "msg_no_valid_json =
     [27169, 22411, 26410, 36820, 22238, 26377, 25928, 30340, 74, 83, 79, 78, 26684, 24335,
      32467, 26524]"

definition msg_unsupported_prefix :: pystr where
  "msg_unsupported_prefix = [19981, 25903, 25345, 30340, 27169, 22411, 58, 32]"

definition msg_unsupported :: pystr where
  "msg_unsupported = [27169, 22411, 19981, 25903, 25345]"

definition msg_grading_failed_prefix :: pystr where
  "msg_grading_failed_prefix = [25209, 25913, 22833, 36133, 58, 32]"

definition msg_call_exception_prefix :: pystr where
  "msg_call_exception_prefix = [27169, 22411, 35843, 29992, 24322, 24120, 58, 32]"

text \<open>The dictionary that every failing path of \<^verbatim>\<open>grade_with_model\<close> returns.\<close>

definition failure_result :: "pystr \<Rightarrow> pystr \<Rightarrow> pydict" where
  "failure_result err cmt =
     [(py ''success'', JBool False), (py ''error'', JStr err), (py ''score'', JInt 0),
      (py ''is_correct'', JBool False), (py ''comment'', JStr cmt)]"

definition exception_result :: "pystr \<Rightarrow> pydict" where
  "exception_result e =
     failure_result (msg_grading_failed_prefix @ e) (msg_call_exception_prefix @ e)"

text \<open>
  \<^verbatim>\<open>for _ in range(3)\<close>: a removal that succeeds ends the loop, a
  \<^verbatim>\<open>PermissionError\<close> leads to the next attempt, any other exception leaves the loop
  and is logged as a warning.
\<close>

fun remove_attempts :: "(nat \<Rightarrow> remove_outcome) \<Rightarrow> nat \<Rightarrow> nat \<Rightarrow> fs_event list" where
  "remove_attempts rm i 0 = []"
| "remove_attempts rm i (Suc k) =
     RemoveAttempt #
       (case rm i of
          Removed \<Rightarrow> []
        | PermissionDenied \<Rightarrow> remove_attempts rm (Suc i) k
        | RemoveRaises \<Rightarrow> [CleanupWarning])"

text \<open>The clean-up of the exception handler; \<open>ex\<close> is \<^verbatim>\<open>os.path.exists(temp_path)\<close>.\<close>

definition cleanup :: "world \<Rightarrow> bool \<Rightarrow> fs_event list" where
  "cleanup w ex = (if ex then remove_attempts (remove_result w) 0 3 else [])"

datatype family = Qwen | Claude | Gemini | Glm

definition family_of :: "pystr \<Rightarrow> family option" where
  "family_of m =
     (if startswith m (py ''qwen'') then Some Qwen
      else if startswith m (py ''claude'') then Some Claude
      else if startswith m (py ''gemini'') then Some Gemini
      else if startswith m (py ''glm'') then Some Glm
      else None)"

text \<open>
  The text that the branch of a provider family hands to the parser, or the exception
  that leaves the branch. Only the Gemini branch catches an exception of the request
  itself, and goes on with empty text.
\<close>

definition content_of :: "family \<Rightarrow> provider_outcome \<Rightarrow> pystr + pystr" where
  "content_of fam out =
     (case out of
        Content c \<Rightarrow> Inr c
      | ApiRaises e \<Rightarrow> (if fam = Gemini then Inr [] else Inl e)
      | SetupRaises e \<Rightarrow> Inl e
      | PreprocessRaises e \<Rightarrow> Inl e)"

text \<open>
  The result dictionary of the call, and what the call does to the image artifact
  \<^verbatim>\<open>temp_path\<close>, in order.
\<close>

definition grade_with_model ::
  "world \<Rightarrow> (pystr \<times> pystr) list \<Rightarrow> pystr \<Rightarrow> json \<Rightarrow> real \<Rightarrow> json
     \<Rightarrow> pydict \<times> fs_event list" where
  "grade_with_model w api_keys model question_number max_sc group_name =
     (if model \<notin> fst ` set api_keys then
        (failure_result (msg_no_key_prefix @ model @ msg_no_key_suffix) msg_key_not_configured, [])
      else
        (case respond w model question_number group_name of
           PreprocessRaises e \<Rightarrow> (exception_result e, cleanup w (artifact_existed w))
         | out \<Rightarrow>
             (case family_of model of
                None \<Rightarrow>
                  (failure_result (msg_unsupported_prefix @ model) msg_unsupported, [WriteArtifact])
              | Some fam \<Rightarrow>
                  (case content_of fam out of
                     Inl e \<Rightarrow> (exception_result e, WriteArtifact # cleanup w True)
                   | Inr content \<Rightarrow>
                       (case parse_grading_response (float_of_str w) (clean_text w) content max_sc of
                          Inl err \<Rightarrow>
                            (exception_result (describe w err), WriteArtifact # cleanup w True)
                        | Inr None \<Rightarrow>
                            (failure_result msg_unparseable msg_no_valid_json, [WriteArtifact])
                        | Inr (Some result) \<Rightarrow>
                            (AList.update (py ''success'') (JBool True)
                               (AList.update (py ''max_score'') (JFloat max_sc)
                                  (AList.update (py ''model_used'') (JStr model) result)),
                             [WriteArtifact]))))))"

section \<open>Structure discovery\<close>

subsection \<open>\<^verbatim>\<open>ExamGrader.extract_json_from_text\<close>\<close>

text \<open>The second parser of the discovery step. \<open>JNull\<close> is its \<^verbatim>\<open>None\<close>.\<close>

definition loads_braces :: "pystr \<Rightarrow> json option" where
  "loads_braces text =
     (case (find_char 123 text, rfind_char 125 text) of
        (Some start, Some end) \<Rightarrow>
          (if end > start then json_loads True (slice text start (end + 1)) else None)
      | _ \<Rightarrow> None)"

fun first_loads :: "pystr list \<Rightarrow> json option" where
  "first_loads [] = None"
| "first_loads (m # ms) =
     (case json_loads True m of Some v \<Rightarrow> Some v | None \<Rightarrow> first_loads ms)"

definition extract_json_from_text :: "pystr \<Rightarrow> json" where
  "extract_json_from_text text =
     (if text = [] then JNull
      else
        (case json_loads True text of
           Some v \<Rightarrow> v
         | None \<Rightarrow>
             (case first_loads (code_blocks text) of
                Some v \<Rightarrow> v
              | None \<Rightarrow>
                  (case loads_braces text of
                     Some v \<Rightarrow> v
                   | None \<Rightarrow>
                       (case loads_braces (map (\<lambda>c. if c = 65306 then 58 else c) text) of
                          Some v \<Rightarrow> v
                        | None \<Rightarrow> JNull)))))"

subsection \<open>\<^verbatim>\<open>ExamGrader.analyze_exam_structure\<close>\<close>

definition msg_structure_no_models :: pystr where
  "msg_structure_no_models = [27809, 26377, 21487, 29992, 30340, 27169, 22411]"

definition msg_structure_unparseable :: pystr where
  "msg_structure_unparseable =
     [26080, 27861, 35299, 26512, 27169, 22411, 21709, 24212, 20026, 74, 83, 79, 78]"

definition msg_structure_failed_prefix :: pystr where
  "msg_structure_failed_prefix = [20998, 26512, 35797, 21367, 32467, 26500, 22833, 36133, 58, 32]"

definition structure_failure :: "pystr \<Rightarrow> pydict" where
  "structure_failure err = [(py ''success'', JBool False), (py ''error'', JStr err)]"

text \<open>
  From the text of the response to the dictionary of the discovery step: the grading
  parser first, then the second parser; a dictionary gets \<^verbatim>\<open>success\<close> set, anything
  else that is true cannot be assigned to, and the handler turns the exception into a
  failure.
\<close>

definition structure_of_content :: "world \<Rightarrow> pystr \<Rightarrow> pydict" where
  "structure_of_content w content =
     (case parse_grading_response (float_of_str w) (clean_text w) content 100 of
        Inl err \<Rightarrow> structure_failure (msg_structure_failed_prefix @ describe w err)
      | Inr parsed \<Rightarrow>
          (let result = (case parsed of Some d \<Rightarrow> JObj d | None \<Rightarrow> extract_json_from_text content)
           in if \<not> truthy result then structure_failure msg_structure_unparseable
              else
                (case result of
                   JObj d \<Rightarrow> AList.update (py ''success'') (JBool True) d
                 | _ \<Rightarrow> structure_failure (msg_structure_failed_prefix @ describe w TypeError))))"

text \<open>
  The discovery call for the chosen provider. Reading the image and writing its artifact
  happen outside the handler of the function, so an exception there
  (\<open>PreprocessRaises\<close>) leaves the function; every later exception is turned into a
  failure dictionary. The discovery step has no branch for the Claude family.
\<close>

definition analyze_with_model :: "world \<Rightarrow> pystr \<Rightarrow> pyerr + pydict" where
  "analyze_with_model w model =
     (case discover w model of
        PreprocessRaises e \<Rightarrow> Inl (OtherError e)
      | out \<Rightarrow>
          (case family_of model of
             None \<Rightarrow> Inr (structure_failure (msg_unsupported_prefix @ model))
           | Some Claude \<Rightarrow> Inr (structure_failure (msg_unsupported_prefix @ model))
           | Some fam \<Rightarrow>
               (case content_of fam out of
                  Inl e \<Rightarrow> Inr (structure_failure (msg_structure_failed_prefix @ e))
                | Inr content \<Rightarrow> Inr (structure_of_content w content))))"

text \<open>
  The dictionary that the discovery step returns: a failure without any credential;
  else the call for the given provider, or for the first one with a credential when
  none is given or the given one has no credential.
\<close>

definition analyze_exam_structure ::
  "world \<Rightarrow> (pystr \<times> pystr) list \<Rightarrow> pystr option \<Rightarrow> pyerr + pydict" where
  "analyze_exam_structure w api_keys model_opt =
     (case api_keys of
        [] \<Rightarrow> Inr (structure_failure msg_structure_no_models)
      | first_key # other_keys \<Rightarrow>
          analyze_with_model w
            (case model_opt of
               None \<Rightarrow> fst first_key
             | Some m \<Rightarrow> (if m = [] \<or> m \<notin> fst ` set api_keys then fst first_key else m)))"

subsection \<open>From the discovered structure to the list of questions\<close>

function str_of_nat :: "nat \<Rightarrow> pystr" where
  "str_of_nat n = (if n < 10 then [48 + n] else str_of_nat (n div 10) @ [48 + n mod 10])"
  by pat_completeness auto
termination
  by (relation "measure id") auto

declare str_of_nat.simps [simp del]

definition str_of_int :: "int \<Rightarrow> pystr" where
  "str_of_int i = (if i < 0 then 45 # str_of_nat (nat (- i)) else str_of_nat (nat i))"

text \<open>
  \<^verbatim>\<open>str(x)\<close>, as the f-strings of the source apply it; the text of a float, a list or
  a dict is left to the parameter \<open>repr_other\<close>.
\<close>

definition fmt :: "world \<Rightarrow> json \<Rightarrow> pystr" where
  "fmt w v =
     (case v of
        JStr t \<Rightarrow> t
      | JInt n \<Rightarrow> str_of_int n
      | JNull \<Rightarrow> py ''None''
      | JBool b \<Rightarrow> (if b then py ''True'' else py ''False'')
      | _ \<Rightarrow> repr_other w v)"

text \<open>\<^verbatim>\<open>for x in v\<close>: the items of a list, the characters of a string, the keys of a dict.\<close>

definition py_iter :: "json \<Rightarrow> pyerr + json list" where
  "py_iter v =
     (case v of
        JArr xs \<Rightarrow> Inr xs
      | JStr t \<Rightarrow> Inr (map (\<lambda>c. JStr [c]) t)
      | JObj d \<Rightarrow> Inr (map (\<lambda>(k, x). JStr k) d)
      | _ \<Rightarrow> Inl TypeError)"

text \<open>\<^verbatim>\<open>key in v\<close> for a string \<open>key\<close>.\<close>

definition py_contains :: "pystr \<Rightarrow> json \<Rightarrow> pyerr + bool" where
  "py_contains key v =
     (case v of
        JStr t \<Rightarrow> Inr (py_in key t)
      | JArr xs \<Rightarrow> Inr (JStr key \<in> set xs)
      | JObj d \<Rightarrow> Inr (key \<in> fst ` set d)
      | _ \<Rightarrow> Inl TypeError)"

text \<open>An operand of \<^verbatim>\<open>range\<close> and of \<^verbatim>\<open>+ 1\<close>: an integer, or a boolean as one.\<close>

definition py_index :: "json \<Rightarrow> pyerr + int" where
  "py_index v =
     (case v of
        JInt n \<Rightarrow> Inr n
      | JBool b \<Rightarrow> Inr (if b then 1 else 0)
      | _ \<Rightarrow> Inl TypeError)"

text \<open>\<^verbatim>\<open>v > 0\<close>\<close>

definition py_positive :: "json \<Rightarrow> pyerr + bool" where
  "py_positive v = (case num_val v of Some r \<Rightarrow> Inr (r > 0) | None \<Rightarrow> Inl TypeError)"

fun map_err :: "('a \<Rightarrow> pyerr + 'b) \<Rightarrow> 'a list \<Rightarrow> pyerr + 'b list" where
  "map_err f [] = Inr []"
| "map_err f (x # xs) =
     (case f x of
        Inl e \<Rightarrow> Inl e
      | Inr y \<Rightarrow> (case map_err f xs of Inl e \<Rightarrow> Inl e | Inr ys \<Rightarrow> Inr (y # ys)))"

text \<open>
  \<^verbatim>\<open>[{"id": str(i), "group": None, "unique_id": str(i), "score": None}
     for i in range(1, n + 1)]\<close>
\<close>

definition numbered_question :: "pystr \<Rightarrow> q_item" where
  "numbered_question t =
     \<lparr> q_id = JStr t, q_group = JNull, unique_id = t, box_2d = JNull, q_score = JNull \<rparr>"

definition numbered_questions :: "int \<Rightarrow> q_item list" where
  "numbered_questions n = map (\<lambda>i. numbered_question (str_of_int i)) [1..n]"

definition kw_choice :: pystr where
  "kw_choice = [36873, 25321]"

definition kw_fill :: pystr where
  "kw_fill = [22635, 31354]"

definition kw_judge :: pystr where
  "kw_judge = [21028, 26029]"

definition unknown_group :: pystr where
  "unknown_group = [26410, 30693, 22823, 39064]"

text \<open>
  The loop over \<^verbatim>\<open>text_scores.items()\<close>: the value of the first keyword of the
  answer key that occurs in the section name, \<^verbatim>\<open>None\<close> when there is none.
\<close>

fun text_match :: "(pystr \<times> real) list \<Rightarrow> json \<Rightarrow> pyerr + json" where
  "text_match [] group_name = Inr JNull"
| "text_match ((key, sc) # rest) group_name =
     (case py_contains key group_name of
        Inl e \<Rightarrow> Inl e
      | Inr True \<Rightarrow> Inr (JFloat sc)
      | Inr False \<Rightarrow> text_match rest group_name)"

text \<open>The defaults per category: multiple choice 3, fill-in 2, true/false 2.\<close>

definition category_default :: "json \<Rightarrow> pyerr + json" where
  "category_default group_name =
     (case py_contains kw_choice group_name of
        Inl e \<Rightarrow> Inl e
      | Inr True \<Rightarrow> Inr (JInt 3)
      | Inr False \<Rightarrow>
          (case py_contains kw_fill group_name of
             Inl e \<Rightarrow> Inl e
           | Inr True \<Rightarrow> Inr (JInt 2)
           | Inr False \<Rightarrow>
               (case py_contains kw_judge group_name of
                  Inl e \<Rightarrow> Inl e
                | Inr True \<Rightarrow> Inr (JInt 2)
                | Inr False \<Rightarrow> Inr JNull)))"

text \<open>
  The point value recorded for a question of a section: its own \<^verbatim>\<open>score\<close>, else the
  section's \<^verbatim>\<open>default_score\<close>, else the answer key's value for the section, else the
  category default, else \<^verbatim>\<open>None\<close>.
\<close>

definition resolve_q_score :: "(pystr \<times> real) list \<Rightarrow> json \<Rightarrow> json \<Rightarrow> json \<Rightarrow> pyerr + json" where
  "resolve_q_score text_scores group_name group_default_score q_sc =
     (let s1 = (if q_sc = JNull then group_default_score else q_sc) in
      case (if s1 = JNull \<and> truthy group_name then text_match text_scores group_name else Inr s1) of
        Inl e \<Rightarrow> Inl e
      | Inr s2 \<Rightarrow> (if s2 = JNull then category_default group_name else Inr s2))"

definition group_question ::
  "world \<Rightarrow> (pystr \<times> real) list \<Rightarrow> json \<Rightarrow> json \<Rightarrow> json \<Rightarrow> pyerr + q_item" where
  "group_question w text_scores group_name group_default_score q =
     (case q of
        JObj qd \<Rightarrow>
          (case resolve_q_score text_scores group_name group_default_score
                  (dict_get qd (py ''score'')) of
             Inl e \<Rightarrow> Inl e
           | Inr sc \<Rightarrow>
               Inr \<lparr> q_id = dict_get_default qd (py ''id'') (JStr []),
                     q_group = group_name,
                     unique_id =
                       fmt w group_name @ [45] @ fmt w (dict_get_default qd (py ''id'') (JStr [])),
                     box_2d = dict_get qd (py ''box_2d''),
                     q_score = sc \<rparr>)
      | _ \<Rightarrow> Inl AttributeError)"

definition group_questions :: "world \<Rightarrow> (pystr \<times> real) list \<Rightarrow> json \<Rightarrow> pyerr + q_item list" where
  "group_questions w text_scores grp =
     (case grp of
        JObj gd \<Rightarrow>
          (case py_iter (dict_get_default gd (py ''questions'') (JArr [])) of
             Inl e \<Rightarrow> Inl e
           | Inr qs \<Rightarrow>
               map_err
                 (group_question w text_scores
                    (dict_get_default gd (py ''name'') (JStr unknown_group))
                    (dict_get gd (py ''default_score'')))
                 qs)
      | _ \<Rightarrow> Inl AttributeError)"

text \<open>The questions of a discovery result that reports success, before the check for an empty list.\<close>

definition discovered_questions ::
  "world \<Rightarrow> (pystr \<times> real) list \<Rightarrow> pydict \<Rightarrow> pyerr + q_item list" where
  "discovered_questions w text_scores structure_result =
     (case map_of structure_result (py ''groups'') of
        Some groups \<Rightarrow>
          (case py_iter groups of
             Inl e \<Rightarrow> Inl e
           | Inr gs \<Rightarrow>
               (case map_err (group_questions w text_scores) gs of
                  Inl e \<Rightarrow> Inl e
                | Inr qss \<Rightarrow> Inr (concat qss)))
      | None \<Rightarrow>
          (case py_index (dict_get_default structure_result (py ''total_questions'') (JInt 10)) of
             Inl e \<Rightarrow> Inl e
           | Inr total_questions \<Rightarrow>
               (case py_iter
                       (dict_get_default structure_result (py ''question_numbers'')
                          (JArr (map (\<lambda>i. JStr (str_of_int i)) [1..total_questions]))) of
                  Inl e \<Rightarrow> Inl e
                | Inr question_numbers \<Rightarrow>
                    Inr (map (\<lambda>qn. numbered_question (fmt w qn)) question_numbers))))"

text \<open>
  \<^verbatim>\<open>questions_to_grade\<close> when no question count was given: ten numbered questions
  when the discovery failed; else the discovered ones, and when there is none, the
  questions 1 to \<^verbatim>\<open>total_questions\<close> if that number is positive.
\<close>

definition questions_from_structure ::
  "world \<Rightarrow> (pystr \<times> real) list \<Rightarrow> pydict \<Rightarrow> pyerr + q_item list" where
  "questions_from_structure w text_scores structure_result =
     (if \<not> truthy (dict_get_default structure_result (py ''success'') (JBool False)) then
        Inr (numbered_questions 10)
      else
        (case discovered_questions w text_scores structure_result of
           Inl e \<Rightarrow> Inl e
         | Inr qs \<Rightarrow>
             (if qs = [] then
                (let total_qs = dict_get_default structure_result (py ''total_questions'') (JInt 0)
                 in case py_positive total_qs of
                      Inl e \<Rightarrow> Inl e
                    | Inr False \<Rightarrow> Inr []
                    | Inr True \<Rightarrow>
                        (case py_index total_qs of
                           Inl e \<Rightarrow> Inl e
                         | Inr n \<Rightarrow> Inr (numbered_questions n)))
              else Inr qs)))"

section \<open>The orchestrator: \<^verbatim>\<open>ExamGrader.grade_exam_with_multiple_models\<close>\<close>

definition msg_no_models :: pystr where
  "msg_no_models =
     [27809, 26377, 21487, 29992, 30340, 27169, 22411, 65292, 35831, 26816, 26597, 65, 80, 73,
      32, 75, 101, 121, 37197, 32622, 25110, 36873, 25321, 30340, 27169, 22411]"

definition msg_failed :: pystr where
  "msg_failed = [22833, 36133]"

definition msg_unknown_error :: pystr where
  "msg_unknown_error = [26410, 30693, 38169, 35823]"

text \<open>
  The providers of a run: the selected ones that have a credential; all providers with
  a credential when the selection is empty or absent.
\<close>

definition available_models :: "(pystr \<times> pystr) list \<Rightarrow> pystr list \<Rightarrow> pystr list" where
  "available_models api_keys selected_models =
     (if selected_models \<noteq> [] then filter (\<lambda>m. m \<in> fst ` set api_keys) selected_models
      else map fst api_keys)"

text \<open>
  What the grading loop stores for one provider: the result of a successful call, whose
  \<^verbatim>\<open>score\<close> and \<^verbatim>\<open>is_correct\<close> the loop reads for its log line, or a fresh
  dictionary with score 0 for a failed call.
\<close>

definition question_entry :: "pydict \<Rightarrow> pyerr + pydict" where
  "question_entry result =
     (case dict_item result (py ''success'') of
        Inl e \<Rightarrow> Inl e
      | Inr ok \<Rightarrow>
          (if truthy ok then
             (case dict_item result (py ''score'') of
                Inl e \<Rightarrow> Inl e
              | Inr sc \<Rightarrow>
                  (case dict_item result (py ''is_correct'') of
                     Inl e \<Rightarrow> Inl e
                   | Inr c \<Rightarrow> Inr result))
           else
             Inr [(py ''score'', JInt 0), (py ''is_correct'', JBool False),
                  (py ''comment'', dict_get_default result (py ''error'') (JStr msg_failed))]))"

text \<open>The loop over the providers for one question; \<open>acc\<close> is \<^verbatim>\<open>question_results\<close>.\<close>

fun grade_models ::
  "world \<Rightarrow> (pystr \<times> pystr) list \<Rightarrow> json \<Rightarrow> real \<Rightarrow> json \<Rightarrow> pystr list
     \<Rightarrow> (pystr \<times> pydict) list \<Rightarrow> pyerr + (pystr \<times> pydict) list" where
  "grade_models w api_keys q_num current_max_score group_name [] acc = Inr acc"
| "grade_models w api_keys q_num current_max_score group_name (m # ms) acc =
     (case question_entry
             (fst (grade_with_model w api_keys m q_num current_max_score group_name)) of
        Inl e \<Rightarrow> Inl e
      | Inr entry \<Rightarrow>
          grade_models w api_keys q_num current_max_score group_name ms (AList.update m entry acc))"

text \<open>The loop over the questions; \<open>acc\<close> is \<^verbatim>\<open>all_results\<close>.\<close>

fun grade_questions ::
  "world \<Rightarrow> (pystr \<times> pystr) list \<Rightarrow> pystr list \<Rightarrow> real \<Rightarrow> q_item list
     \<Rightarrow> (pystr \<times> (pystr \<times> pydict) list) list
     \<Rightarrow> pyerr + (pystr \<times> (pystr \<times> pydict) list) list" where
  "grade_questions w api_keys models default_max_score [] acc = Inr acc"
| "grade_questions w api_keys models default_max_score (q # qs) acc =
     (case grade_models w api_keys (q_id q)
             (current_max_score_of (float_of_str w) default_max_score (q_score q))
             (q_group q) models [] of
        Inl e \<Rightarrow> Inl e
      | Inr question_results \<Rightarrow>
          grade_questions w api_keys models default_max_score qs
            (AList.update (unique_id q) question_results acc))"

text \<open>\<^verbatim>\<open>final_results['details'][unique_id]['box_2d'] = box_2d\<close>, for one question.\<close>

definition set_box ::
  "(pystr \<times> question_result) list \<Rightarrow> q_item \<Rightarrow> (pystr \<times> question_result) list" where
  "set_box ds q =
     map (\<lambda>(k, r). if k = unique_id q then (k, r\<lparr>res_box_2d := box_2d q\<rparr>) else (k, r)) ds"

text \<open>
  \<^verbatim>\<open>questions_to_grade\<close>: from the discovery by the first provider of the run when
  no question count is given, else the questions 1 to \<^verbatim>\<open>question_count\<close>.
\<close>

definition questions_to_grade ::
  "world \<Rightarrow> (pystr \<times> pystr) list \<Rightarrow> int option \<Rightarrow> pystr \<Rightarrow> (pystr \<times> real) list
     \<Rightarrow> pyerr + q_item list" where
  "questions_to_grade w api_keys question_count structure_model text_scores =
     (case question_count of
        None \<Rightarrow>
          (case analyze_exam_structure w api_keys (Some structure_model) of
             Inl e \<Rightarrow> Inl e
           | Inr structure_result \<Rightarrow> questions_from_structure w text_scores structure_result)
      | Some n \<Rightarrow> Inr (numbered_questions n))"

datatype exam_outcome =
    ExamFailure pystr
  | ExamSuccess "(pystr \<times> (pystr \<times> pydict) list) list" exam_report

text \<open>
  The run for one exam image. \<open>text_scores\<close> is what the answer document gave
  (\<^verbatim>\<open>extract_group_scores_from_text\<close>), empty without a document. Progress reports
  and the running totals per provider are not part of the model.
\<close>

definition grade_exam_with_multiple_models ::
  "world \<Rightarrow> (pystr \<times> pystr) list \<Rightarrow> int option \<Rightarrow> real option \<Rightarrow> pystr list \<Rightarrow> (pystr \<times> real) list
     \<Rightarrow> pyerr + exam_outcome" where
  "grade_exam_with_multiple_models w api_keys question_count max_sc selected_models text_scores =
     (case available_models api_keys selected_models of
        [] \<Rightarrow> Inr (ExamFailure msg_no_models)
      | structure_model # other_models \<Rightarrow>
          (case questions_to_grade w api_keys question_count structure_model text_scores of
             Inl e \<Rightarrow> Inl e
           | Inr questions \<Rightarrow>
               (let default_max_score = (case max_sc of None \<Rightarrow> 10 | Some m \<Rightarrow> m) in
                case grade_questions w api_keys (structure_model # other_models)
                       default_max_score questions [] of
                  Inl e \<Rightarrow> Inl e
                | Inr all_results \<Rightarrow>
                    (case combine_results_v2 (float_of_str w) all_results questions
                            default_max_score of
                       Inl e \<Rightarrow> Inl e
                     | Inr final_results \<Rightarrow>
                         (case mark_raises w of
                            Some e \<Rightarrow> Inl (OtherError e)
                          | None \<Rightarrow>
                              Inr (ExamSuccess all_results
                                     (final_results
                                        \<lparr>details :=
                                           foldl set_box (details final_results) questions\<rparr>)))))))"

section \<open>The task: \<^verbatim>\<open>run_grading_task\<close>\<close>

record task =
  task_status :: pystr
  task_error :: "pystr option"
  task_report :: "exam_report option"

definition err_text :: "world \<Rightarrow> pyerr \<Rightarrow> pystr" where
  "err_text w e = (case e of OtherError m \<Rightarrow> m | _ \<Rightarrow> describe w e)"

text \<open>
  The state of the task when its worker ends. The grader is built without credentials
  of its own, so they come from the environment. A report that says failure sets the
  error status; so does the handler that catches every exception of the run.
\<close>

definition run_grading_task ::
  "world \<Rightarrow> int option \<Rightarrow> real option \<Rightarrow> pystr list \<Rightarrow> (pystr \<times> real) list \<Rightarrow> task" where
  "run_grading_task w question_count max_sc selected_models text_scores =
     (case grade_exam_with_multiple_models w (init_api_keys (getenv w) []) question_count max_sc
             selected_models text_scores of
        Inl e \<Rightarrow>
          \<lparr> task_status = py ''error'', task_error = Some (err_text w e), task_report = None \<rparr>
      | Inr (ExamFailure msg) \<Rightarrow>
          \<lparr> task_status = py ''error'', task_error = Some msg, task_report = None \<rparr>
      | Inr (ExamSuccess all_results final_results) \<Rightarrow>
          (case save_raises w of
             Some e \<Rightarrow> \<lparr> task_status = py ''error'', task_error = Some e, task_report = None \<rparr>
           | None \<Rightarrow>
               \<lparr> task_status = py ''completed'', task_error = None,
                 task_report = Some final_results \<rparr>))"

section \<open>The specification's terms\<close>

text \<open>
  The specification states the aggregation rule with three notions of its own: rounding
  to the nearest half point, clamping into an interval, and being a multiple of 0.5.
\<close>

definition round_to_nearest_half :: "real \<Rightarrow> real" where
  "round_to_nearest_half x = real_of_int (py_round (x * 2)) / 2"








section \<open>Concrete runs\<close>

text \<open>
  An environment for concrete runs: the providers answer by \<open>answer\<close>, the credentials
  come from \<open>env\<close>, no file operation fails, no score is given as a string, and the
  text of an analysis is left as it is.
\<close>

definition quiet_world :: "(pystr \<Rightarrow> pystr option) \<Rightarrow> (pystr \<Rightarrow> provider_outcome) \<Rightarrow> world" where
  "quiet_world env answer =
     \<lparr> float_of_str = Map.empty, clean_text = id, repr_other = (\<lambda>v. []),
       describe = (\<lambda>e. case e of KeyError k \<Rightarrow> [39] @ k @ [39] | OtherError m \<Rightarrow> m | _ \<Rightarrow> py ''error''),
       getenv = env, respond = (\<lambda>m q g. answer m), discover = answer,
       artifact_existed = False, remove_result = (\<lambda>i. Removed),
       mark_raises = None, save_raises = None \<rparr>"

text \<open>Of a run: per question, the score stored for each provider and the final score.\<close>

definition exam_scores ::
  "pyerr + exam_outcome \<Rightarrow> (pystr \<times> (pystr \<times> json) list \<times> real) list option" where
  "exam_scores out =
     (case out of
        Inr (ExamSuccess all_results report) \<Rightarrow>
          Some (map (\<lambda>(k, r). (k, map (\<lambda>(m, e). (m, dict_get e (py ''score''))) (model_scores r),
                              score r))
                  (details report))
      | _ \<Rightarrow> None)"

section \<open>Evaluation\<close>

text \<open>The defining equations that evaluate the model on a concrete input.\<close>

lemmas value_eval =
  py_def dict_get_def dict_get_default_def dict_item_def

lemmas parser_eval =
  parse_grading_response_def brace_attempt_def repair_def try_parse_def
  json_loads_def skip_ws_def json_ws_def replace_tab_def slice_def rstrip_def py_isspace_def
  sorted_blocks_def code_blocks.simps match_at_def fence_def json_word_def closes_def
  process_result_def clean_analysis_def clamp_score_def cons_fst_def dict_of_pairs_def
  scan_number_def is_digit_def digits_val_def pow10_def backslash_def decode_u4_def hex_val_def


lemmas combine_eval =
  combine_results_v2_def combine_question_def numbered_question_def q_info_of_def
  current_max_score_of_def final_score_of_def py_round_def is_correct_of_def comment_of_def
  analysis_of_def Let_def

lemma remove_attempts_3:
  "remove_attempts rm i 3 = remove_attempts rm i (Suc (Suc (Suc 0)))"
  by (simp add: numeral_3_eq_3)

lemmas structure_eval =
  analyze_exam_structure_def analyze_with_model_def structure_of_content_def
  extract_json_from_text_def loads_braces_def structure_failure_def
  questions_from_structure_def discovered_questions_def group_questions_def group_question_def
  resolve_q_score_def category_default_def py_iter_def py_contains_def py_index_def
  py_positive_def fmt_def

lemmas pipeline_eval =
  grade_exam_with_multiple_models_def questions_to_grade_def available_models_def
  numbered_questions_def upto_rec1
  str_of_int_def str_of_nat.simps question_entry_def
  grade_with_model_def family_of_def content_of_def failure_result_def exception_result_def
  cleanup_def remove_attempts_3 set_box_def quiet_world_def exam_scores_def
  run_grading_task_def init_api_keys_def err_text_def

section \<open>The counter of the decoder\<close>

text \<open>
  The counter that bounds the recursion of the decoder never cuts a decoding short: a
  successful scan returns a strictly shorter rest, a scan that succeeds with some counter
  succeeds with every counter that is at least the number of characters it consumed, and
  so \<open>json_loads\<close> gives the same answer whatever counter above the length of the text
  it starts with. A \<open>None\<close> of \<open>json_loads\<close> is therefore a rejection of the text
  by the grammar, never an exhausted counter.
\<close>

lemma decode_u4_shorter: "decode_u4 s = Some (v, r) \<Longrightarrow> length r < length s"
  by (auto simp: decode_u4_def split: list.splits option.splits)

lemma cons_fst_Some: "cons_fst c x = Some (g, r) \<longleftrightarrow> (\<exists>g'. x = Some (g', r) \<and> g = c # g')"
  by (auto simp: cons_fst_def split: option.splits)

lemma scanstring_shorter: "scanstring strict k s = Some (g, r) \<Longrightarrow> length r < length s"
proof (induction k arbitrary: s g strict)
  case 0
  then show ?case by simp
next
  case (Suc k)
  show ?case
  proof (cases s)
    case Nil
    with Suc.prems show ?thesis by simp
  next
    case (Cons c cs)
    have step: "\<And>t g' b. scanstring b k t = Some (g', r) \<Longrightarrow> length t \<le> length cs \<Longrightarrow> length r < length s"
      using Suc.IH Cons by fastforce
    from Suc.prems show ?thesis
      unfolding Cons
      apply (simp split: if_splits list.splits option.splits prod.splits add: cons_fst_Some)
      apply (auto dest!: decode_u4_shorter)
      apply (auto dest!: step [unfolded Cons])
      done
  qed
qed

lemma scanstring_fuel:
  "length s < k \<Longrightarrow> length s < k' \<Longrightarrow> scanstring strict k s = scanstring strict k' s"
proof (induction k arbitrary: s k')
  case 0
  then show ?case by simp
next
  case (Suc k)
  then obtain j where k': "k' = Suc j" by (cases k') auto
  show ?case
  proof (cases s)
    case Nil
    then show ?thesis by (simp add: k')
  next
    case (Cons c cs)
    have step: "\<And>t. length t \<le> length cs \<Longrightarrow> scanstring strict k t = scanstring strict j t"
      using Suc.IH Suc.prems Cons k' by simp
    have u4: "\<And>t v r. decode_u4 t = Some (v, r) \<Longrightarrow> length r < length t"
      by (rule decode_u4_shorter)
    show ?thesis
      unfolding Cons k'
      by (auto simp: step split: list.splits option.splits dest!: u4 intro!: arg_cong [where f = "cons_fst _"] step)
  qed
qed

lemma scan_number_shorter:
  assumes "scan_number s = Some (v, r)"
  shows "length r < length s"
proof -
  define s1 where "s1 = (if startswith s [45] then drop 1 s else s)"
  from assms obtain d r0 where s1: "s1 = d # r0" and d: "is_digit d"
    by (auto simp: scan_number_def s1_def Let_def split: list.splits if_splits)
  define ip where "ip = (if d = 48 then [d] else takeWhile is_digit (d # r0))"
  define s2 where "s2 = drop (length ip) (d # r0)"
  define has_frac where
    "has_frac = (case s2 of c # f # r2 \<Rightarrow> c = 46 \<and> is_digit f | _ \<Rightarrow> False)"
  define fp where "fp = (if has_frac then takeWhile is_digit (drop 1 s2) else [])"
  define s3 where "s3 = (if has_frac then drop (1 + length fp) s2 else s2)"
  define s3e where
    "s3e = (case s3 of
              c # r3 \<Rightarrow>
                (if c = 101 \<or> c = 69 then
                   (if startswith r3 [45] \<or> startswith r3 [43] then drop 1 r3 else r3)
                 else [])
            | [] \<Rightarrow> [])"
  define ep where "ep = takeWhile is_digit s3e"
  define s4 where "s4 = (if ep \<noteq> [] then drop (length ep) s3e else s3)"
  from assms have "r = s4"
    unfolding scan_number_def Let_def s1_def [symmetric]
    unfolding s1 list.case
    unfolding ip_def [symmetric] s2_def [symmetric]
    unfolding has_frac_def [symmetric]
    unfolding fp_def [symmetric]
    unfolding s3_def [symmetric]
    unfolding s3e_def [symmetric]
    unfolding ep_def [symmetric]
    unfolding s4_def [symmetric]
    by (simp add: d split: if_splits)
  moreover have "length s1 \<le> length s"
    by (simp add: s1_def)
  moreover have "length s2 < length s1"
    using d by (simp add: s2_def ip_def s1)
  moreover have "length s3 \<le> length s2"
    by (simp add: s3_def)
  moreover have "length s3e \<le> length s3"
    by (auto simp: s3e_def split: list.splits)
  moreover have "length s4 \<le> length s3"
    using \<open>length s3e \<le> length s3\<close> by (auto simp: s4_def)
  ultimately show ?thesis
    by simp
qed

lemma skip_ws_le: "length (skip_ws s) \<le> length s"
  by (simp add: skip_ws_def length_dropWhile_le)

lemma skip_ws_Cons: "skip_ws s = x # r \<Longrightarrow> length r < length s"
  using skip_ws_le [of s] by simp

lemma scan_once_step_shorter:
  assumes M: "\<And>t ps r. scan_members strict n t = Some (ps, r) \<Longrightarrow> length r < length t"
    and E: "\<And>t vs r. scan_elements strict n t = Some (vs, r) \<Longrightarrow> length r < length t"
    and S: "scan_once strict (Suc n) s = Some (v, r)"
  shows "length r < length s"
proof (cases s)
  case Nil
  with S show ?thesis by simp
next
  case (Cons c cs)
  consider (str) "c = 34" | (obj) "c = 123" | (arr) "c = 91" | (other) "c \<noteq> 34" "c \<noteq> 123" "c \<noteq> 91"
    by blast
  then show ?thesis
  proof cases
    case str
    with S Cons show ?thesis
      by (auto split: option.splits dest!: scanstring_shorter)
  next
    case obj
    with S Cons show ?thesis
      by (auto split: option.splits list.splits if_splits dest!: M skip_ws_Cons)
  next
    case arr
    with S Cons show ?thesis
      by (auto split: option.splits list.splits if_splits dest!: E skip_ws_Cons)
  next
    case other
    with S Cons show ?thesis
      by (auto split: if_splits dest!: scan_number_shorter)
  qed
qed

lemma scan_elements_step_shorter:
  assumes O: "\<And>t v r. scan_once strict n t = Some (v, r) \<Longrightarrow> length r < length t"
    and E: "\<And>t vs r. scan_elements strict n t = Some (vs, r) \<Longrightarrow> length r < length t"
    and S: "scan_elements strict (Suc n) s = Some (vs, r)"
  shows "length r < length s"
proof -
  from S obtain v r1 d r2 where 1: "scan_once strict n s = Some (v, r1)"
    and 2: "skip_ws r1 = d # r2"
    and 3: "d = 93 \<and> r = r2 \<or> (\<exists>ws. scan_elements strict n (skip_ws r2) = Some (ws, r))"
    by (auto split: option.splits list.splits if_splits)
  from O [OF 1] skip_ws_Cons [OF 2] have "length r2 < length s"
    by simp
  moreover have "length r \<le> length r2"
    using 3 E skip_ws_le [of r2] by fastforce
  ultimately show ?thesis
    by simp
qed

lemma scan_members_step_shorter:
  assumes O: "\<And>t v r. scan_once strict n t = Some (v, r) \<Longrightarrow> length r < length t"
    and M: "\<And>t ps r. scan_members strict n t = Some (ps, r) \<Longrightarrow> length r < length t"
    and S: "scan_members strict (Suc n) s = Some (ps, r)"
  shows "length r < length s"
proof -
  from S obtain key r1 c r2 v r3 d r4 where 1: "scanstring strict (Suc (length s)) s = Some (key, r1)"
    and 2: "skip_ws r1 = c # r2"
    and 3: "scan_once strict n (skip_ws r2) = Some (v, r3)"
    and 4: "skip_ws r3 = d # r4"
    and 5: "d = 125 \<and> r = r4 \<or>
            (\<exists>q r5 qs. skip_ws r4 = q # r5 \<and> scan_members strict n r5 = Some (qs, r))"
    by (auto split: option.splits list.splits if_splits)
  from scanstring_shorter [OF 1] skip_ws_Cons [OF 2] have "length r2 < length s"
    by simp
  with O [OF 3] skip_ws_le [of r2] skip_ws_Cons [OF 4] have "length r4 < length s"
    by simp
  moreover have "length r \<le> length r4"
    using 5 M skip_ws_Cons by fastforce
  ultimately show ?thesis
    by simp
qed

lemma scan_shorter:
  "(\<forall>s v r. scan_once strict n s = Some (v, r) \<longrightarrow> length r < length s) \<and>
   (\<forall>s ps r. scan_members strict n s = Some (ps, r) \<longrightarrow> length r < length s) \<and>
   (\<forall>s vs r. scan_elements strict n s = Some (vs, r) \<longrightarrow> length r < length s)"
proof (induction n)
  case 0
  show ?case by simp
next
  case (Suc n)
  then have O: "\<And>t v r. scan_once strict n t = Some (v, r) \<Longrightarrow> length r < length t"
    and M: "\<And>t ps r. scan_members strict n t = Some (ps, r) \<Longrightarrow> length r < length t"
    and E: "\<And>t vs r. scan_elements strict n t = Some (vs, r) \<Longrightarrow> length r < length t"
    by blast+
  show ?case
  proof (intro conjI allI impI)
    fix s v r
    assume "scan_once strict (Suc n) s = Some (v, r)"
    with M E show "length r < length s"
      by (rule scan_once_step_shorter)
  next
    fix s ps r
    assume "scan_members strict (Suc n) s = Some (ps, r)"
    with O M show "length r < length s"
      by (rule scan_members_step_shorter)
  next
    fix s vs r
    assume "scan_elements strict (Suc n) s = Some (vs, r)"
    with O E show "length r < length s"
      by (rule scan_elements_step_shorter)
  qed
qed

lemma scan_once_shorter: "scan_once strict n s = Some (v, r) \<Longrightarrow> length r < length s"
  using scan_shorter by blast

lemma scan_members_shorter: "scan_members strict n s = Some (ps, r) \<Longrightarrow> length r < length s"
  using scan_shorter by blast

lemma scan_elements_shorter: "scan_elements strict n s = Some (vs, r) \<Longrightarrow> length r < length s"
  using scan_shorter by blast

lemma scan_once_step_fuel:
  assumes M: "\<And>t ps r k. scan_members strict m t = Some (ps, r) \<Longrightarrow> length t - length r \<le> k
                \<Longrightarrow> scan_members strict k t = Some (ps, r)"
    and E: "\<And>t vs r k. scan_elements strict m t = Some (vs, r) \<Longrightarrow> length t - length r \<le> k
                \<Longrightarrow> scan_elements strict k t = Some (vs, r)"
    and S: "scan_once strict (Suc m) s = Some (v, r)"
    and N: "length s - length r \<le> n"
  shows "scan_once strict n s = Some (v, r)"
proof -
  from scan_once_shorter [OF S] N obtain k where n: "n = Suc k"
    by (cases n) auto
  from S obtain c cs where s: "s = c # cs"
    by (cases s) auto
  consider (obj) "c = 123" | (arr) "c = 91" | (other) "c \<noteq> 123" "c \<noteq> 91"
    by blast
  then show ?thesis
  proof cases
    case obj
    from S obj s obtain x r' where ws: "skip_ws cs = x # r'"
      by (auto split: list.splits)
    show ?thesis
    proof (cases "x = 34")
      case True
      with S obj s ws obtain pairs where mem: "scan_members strict m r' = Some (pairs, r)"
        and v: "v = JObj (dict_of_pairs pairs)"
        by (auto split: option.splits)
      from skip_ws_Cons [OF ws] scan_members_shorter [OF mem] N
      have "length r' - length r \<le> k"
        by (simp add: s n)
      from M [OF mem this] show ?thesis
        by (simp add: s n obj ws True v)
    next
      case False
      with S obj s ws show ?thesis
        by (auto simp: n split: if_splits)
    qed
  next
    case arr
    from S arr s obtain x r' where ws: "skip_ws cs = x # r'"
      by (auto split: list.splits)
    show ?thesis
    proof (cases "x = 93")
      case True
      with S arr s ws show ?thesis
        by (auto simp: n)
    next
      case False
      with S arr s ws obtain vs where el: "scan_elements strict m (x # r') = Some (vs, r)"
        and v: "v = JArr vs"
        by (auto split: option.splits)
      from skip_ws_le [of cs] scan_elements_shorter [OF el] N
      have "length (x # r') - length r \<le> k"
        by (simp add: s n ws)
      from E [OF el this] show ?thesis
        by (simp add: s n arr ws False v)
    qed
  next
    case other
    then have "scan_once strict (Suc k) (c # cs) = scan_once strict (Suc m) (c # cs)"
      by simp
    with S show ?thesis
      by (simp only: s n)
  qed
qed

lemma scan_elements_step_fuel:
  assumes O: "\<And>t v r k. scan_once strict m t = Some (v, r) \<Longrightarrow> length t - length r \<le> k
                \<Longrightarrow> scan_once strict k t = Some (v, r)"
    and E: "\<And>t vs r k. scan_elements strict m t = Some (vs, r) \<Longrightarrow> length t - length r \<le> k
                \<Longrightarrow> scan_elements strict k t = Some (vs, r)"
    and S: "scan_elements strict (Suc m) s = Some (vs, r)"
    and N: "length s - length r \<le> n"
  shows "scan_elements strict n s = Some (vs, r)"
proof -
  from scan_elements_shorter [OF S] N obtain k where n: "n = Suc k"
    by (cases n) auto
  from S obtain v r1 d r2 where 1: "scan_once strict m s = Some (v, r1)"
    and 2: "skip_ws r1 = d # r2"
    by (auto split: option.splits list.splits)
  note sh = scan_once_shorter [OF 1] skip_ws_Cons [OF 2]
  show ?thesis
  proof (cases "d = 93")
    case True
    with S 1 2 have r: "r = r2" and vs: "vs = [v]"
      by auto
    from sh N have "length s - length r1 \<le> k"
      by (simp add: n r)
    from O [OF 1 this] show ?thesis
      by (simp add: n 2 True r vs)
  next
    case False
    with S 1 2 obtain ws where d: "d = 44"
      and 3: "scan_elements strict m (skip_ws r2) = Some (ws, r)" and vs: "vs = v # ws"
      by (auto split: option.splits if_splits)
    note sh' = scan_elements_shorter [OF 3] skip_ws_le [of r2]
    from sh sh' N have "length s - length r1 \<le> k"
      by (simp add: n)
    from O [OF 1 this] have 4: "scan_once strict k s = Some (v, r1)" .
    from sh sh' N have "length (skip_ws r2) - length r \<le> k"
      by (simp add: n)
    from E [OF 3 this] show ?thesis
      by (simp add: n 2 4 d vs)
  qed
qed

lemma scan_members_step_fuel:
  assumes O: "\<And>t v r k. scan_once strict m t = Some (v, r) \<Longrightarrow> length t - length r \<le> k
                \<Longrightarrow> scan_once strict k t = Some (v, r)"
    and M: "\<And>t ps r k. scan_members strict m t = Some (ps, r) \<Longrightarrow> length t - length r \<le> k
                \<Longrightarrow> scan_members strict k t = Some (ps, r)"
    and S: "scan_members strict (Suc m) s = Some (ps, r)"
    and N: "length s - length r \<le> n"
  shows "scan_members strict n s = Some (ps, r)"
proof -
  from scan_members_shorter [OF S] N obtain k where n: "n = Suc k"
    by (cases n) auto
  from S obtain key r1 c r2 v r3 d r4 where 1: "scanstring strict (Suc (length s)) s = Some (key, r1)"
    and 2: "skip_ws r1 = c # r2" and c: "c = 58"
    and 3: "scan_once strict m (skip_ws r2) = Some (v, r3)"
    and 4: "skip_ws r3 = d # r4"
    by (auto split: option.splits list.splits if_splits)
  note sh = scanstring_shorter [OF 1] skip_ws_Cons [OF 2] skip_ws_le [of r2]
    scan_once_shorter [OF 3] skip_ws_Cons [OF 4]
  show ?thesis
  proof (cases "d = 125")
    case True
    with S 1 2 c 3 4 have r: "r = r4" and ps: "ps = [(key, v)]"
      by auto
    from sh N have "length (skip_ws r2) - length r3 \<le> k"
      by (simp add: n r)
    from O [OF 3 this] show ?thesis
      by (simp add: n 1 2 c 4 True r ps)
  next
    case False
    with S 1 2 c 3 4 obtain q r5 qs where d: "d = 44"
      and 5: "skip_ws r4 = q # r5" and q: "q = 34"
      and 6: "scan_members strict m r5 = Some (qs, r)" and ps: "ps = (key, v) # qs"
      by (auto split: option.splits list.splits if_splits)
    note sh' = skip_ws_Cons [OF 5] scan_members_shorter [OF 6]
    from sh sh' N have "length (skip_ws r2) - length r3 \<le> k"
      by (simp add: n)
    from O [OF 3 this] have 7: "scan_once strict k (skip_ws r2) = Some (v, r3)" .
    from sh sh' N have "length r5 - length r \<le> k"
      by (simp add: n)
    from M [OF 6 this] show ?thesis
      by (simp add: n 1 2 c 4 5 7 d q ps)
  qed
qed

lemma scan_fuel:
  "(\<forall>s v r k. scan_once strict m s = Some (v, r) \<longrightarrow> length s - length r \<le> k
      \<longrightarrow> scan_once strict k s = Some (v, r)) \<and>
   (\<forall>s ps r k. scan_members strict m s = Some (ps, r) \<longrightarrow> length s - length r \<le> k
      \<longrightarrow> scan_members strict k s = Some (ps, r)) \<and>
   (\<forall>s vs r k. scan_elements strict m s = Some (vs, r) \<longrightarrow> length s - length r \<le> k
      \<longrightarrow> scan_elements strict k s = Some (vs, r))"
proof (induction m)
  case 0
  show ?case by simp
next
  case (Suc m)
  then have O: "\<And>t v r k. scan_once strict m t = Some (v, r) \<Longrightarrow> length t - length r \<le> k
                \<Longrightarrow> scan_once strict k t = Some (v, r)"
    and M: "\<And>t ps r k. scan_members strict m t = Some (ps, r) \<Longrightarrow> length t - length r \<le> k
                \<Longrightarrow> scan_members strict k t = Some (ps, r)"
    and E: "\<And>t vs r k. scan_elements strict m t = Some (vs, r) \<Longrightarrow> length t - length r \<le> k
                \<Longrightarrow> scan_elements strict k t = Some (vs, r)"
    by blast+
  show ?case
  proof (intro conjI allI impI)
    fix s v r k
    assume "scan_once strict (Suc m) s = Some (v, r)" "length s - length r \<le> k"
    with M E show "scan_once strict k s = Some (v, r)"
      by (rule scan_once_step_fuel)
  next
    fix s ps r k
    assume "scan_members strict (Suc m) s = Some (ps, r)" "length s - length r \<le> k"
    with O M show "scan_members strict k s = Some (ps, r)"
      by (rule scan_members_step_fuel)
  next
    fix s vs r k
    assume "scan_elements strict (Suc m) s = Some (vs, r)" "length s - length r \<le> k"
    with O E show "scan_elements strict k s = Some (vs, r)"
      by (rule scan_elements_step_fuel)
  qed
qed

lemma scan_once_fuel:
  assumes "length s < m" and "length s < n"
  shows "scan_once strict m (skip_ws s) = scan_once strict n (skip_ws s)"
proof -
  have *: "scan_once strict b (skip_ws s) = Some x"
    if "scan_once strict a (skip_ws s) = Some x" and "length s < b" for a b x
  proof -
    obtain v r where x: "x = (v, r)"
      by (cases x)
    from skip_ws_le [of s] that(2) have "length (skip_ws s) - length r \<le> b"
      by simp
    with that(1) scan_fuel [of strict a] show ?thesis
      unfolding x by blast
  qed
  show ?thesis
  proof (cases "scan_once strict m (skip_ws s)")
    case None
    show ?thesis
    proof (cases "scan_once strict n (skip_ws s)")
      case None
      with \<open>scan_once strict m (skip_ws s) = None\<close> show ?thesis by simp
    next
      case (Some x)
      from * [OF Some assms(1)] None show ?thesis by simp
    qed
  next
    case (Some x)
    from * [OF Some assms(2)] Some show ?thesis by simp
  qed
qed

lemma json_loads_fuel:
  "length s < n \<Longrightarrow>
   json_loads strict s =
     (case scan_once strict n (skip_ws s) of
        None \<Rightarrow> None
      | Some (v, r) \<Rightarrow> (if skip_ws r = [] then Some v else None))"
  unfolding json_loads_def using scan_once_fuel [of s "Suc (length s)" n strict] by simp

section \<open>Properties of the aggregation\<close>

lemma py_round_near: "\<bar>real_of_int (py_round x) - x\<bar> \<le> 1 / 2"
  unfolding py_round_def Let_def by (auto; linarith)

lemma round_to_nearest_half_near: "\<bar>round_to_nearest_half x - x\<bar> \<le> 1 / 4"
  using py_round_near [of "x * 2"] unfolding round_to_nearest_half_def by (simp add: field_simps abs_le_iff)
























section \<open>Failed providers in the mean\<close>













section \<open>Properties of the response parser\<close>













section \<open>The availability listing\<close>

text \<open>
  C10. For every credential map, the listing has exactly three entries, for
  \<open>qwen-vl-max\<close>, \<open>gemini-3-pro\<close> and \<open>glm-4v\<close> in this order, each available exactly
  when the map has a credential for its id; \<open>claude\<close> is never listed.
\<close>

theorem availability_listing:
  "map (\<lambda>e. (model_id e, available e)) (check_available_models api_keys)
     = map (\<lambda>i. (i, i \<in> fst ` set api_keys)) [py ''qwen-vl-max'', py ''gemini-3-pro'', py ''glm-4v'']
   \<and> py ''claude'' \<notin> model_id ` set (check_available_models api_keys)"
  by (simp add: check_available_models_def check_model_def py_def)

theorem availability_listing_witness:
  "map (\<lambda>e. (model_id e, available e))
     (check_available_models [(py ''claude'', py ''k1''), (py ''qwen-vl-max'', py ''k2'')])
     = [(py ''qwen-vl-max'', True), (py ''gemini-3-pro'', False), (py ''glm-4v'', False)]"
  using availability_listing [of "[(py ''claude'', py ''k1''), (py ''qwen-vl-max'', py ''k2'')]"]
  by (simp add: py_def)


section \<open>The image artifact of a provider call\<close>

text \<open>
  C9 asks for an attempt to remove the artifact on every call. After a successful call
  the artifact has been written and no removal is attempted: the removal is in the
  exception handler of \<^verbatim>\<open>grade_with_model\<close> only, while the discovery step removes its
  artifact on both paths.
\<close>

theorem artifact_left_after_success:
  \<open>grade_with_model
      (quiet_world Map.empty (\<lambda>m. Content (py ''{"score":8,"is_correct":true,"comment":"ok"}'')))
      [(py ''qwen-vl-max'', py ''k1'')] (py ''qwen-vl-max'') (JStr (py ''1'')) 10 JNull
    = ([(py ''score'', JFloat 8), (py ''is_correct'', JBool True),
        (py ''comment'', JStr (py ''ok'')), (py ''model_used'', JStr (py ''qwen-vl-max'')),
        (py ''max_score'', JFloat 10), (py ''success'', JBool True)],
       [WriteArtifact])\<close>
  by (simp add: pipeline_eval parser_eval value_eval)



section \<open>Point values\<close>



lemma py_in_empty: "py_in k [] \<longleftrightarrow> k = []"
  by simp







section \<open>The fallback of the structure discovery\<close>

lemma parse_empty: "parse_grading_response fos clean [] m = Inr None"
  by (simp add: parser_eval)

lemma extract_empty: "extract_json_from_text [] = JNull"
  by (simp add: extract_json_from_text_def)

lemma structure_failure_not_success:
  "\<not> truthy (dict_get_default (structure_failure e) (py ''success'') (JBool False))"
  by (simp add: structure_failure_def dict_get_default_def)

lemma numbered_questions_10:
  "numbered_questions 10
     = map numbered_question
         [py ''1'', py ''2'', py ''3'', py ''4'', py ''5'', py ''6'', py ''7'', py ''8'', py ''9'',
          py ''10'']"
  by (simp add: numbered_questions_def str_of_int_def str_of_nat.simps py_def upto_rec1)


lemma analyze_model:
  assumes "m \<in> fst ` set api_keys" and "m \<noteq> []"
  shows "analyze_exam_structure w api_keys (Some m) = analyze_with_model w m"
  using assms by (cases api_keys) (auto simp: analyze_exam_structure_def)

lemma structure_of_content_unparseable:
  assumes "parse_grading_response (float_of_str w) (clean_text w) c 100 = Inr None"
    and "\<not> truthy (extract_json_from_text c)"
  shows "structure_of_content w c = structure_failure msg_structure_unparseable"
  using assms by (simp add: structure_of_content_def)

lemma analyze_with_model_returns:
  assumes "\<forall>e. discover w m \<noteq> PreprocessRaises e"
  shows "\<exists>sr. analyze_with_model w m = Inr sr"
  using assms unfolding analyze_with_model_def
  by (cases "discover w m")
     (auto split: option.splits family.splits sum.splits)

lemma analyze_with_model_raises:
  assumes "discover w m = SetupRaises e \<or> discover w m = ApiRaises e"
    and "analyze_with_model w m = Inr sr"
  shows "\<not> truthy (dict_get_default sr (py ''success'') (JBool False))"
  using assms unfolding analyze_with_model_def
  by (auto simp: content_of_def structure_failure_not_success parse_empty extract_empty
        structure_of_content_unparseable
      split: option.splits family.splits)

lemma analyze_with_model_unparseable:
  assumes "discover w m = Content c"
    and "parse_grading_response (float_of_str w) (clean_text w) c 100 = Inr None"
    and "\<not> truthy (extract_json_from_text c)"
    and "analyze_with_model w m = Inr sr"
  shows "\<not> truthy (dict_get_default sr (py ''success'') (JBool False))"
  using assms unfolding analyze_with_model_def
  by (auto simp: content_of_def structure_failure_not_success structure_of_content_unparseable
      split: option.splits family.splits)


text \<open>
  C5, as the code has it. With a provider that has a credential, and unless reading the
  image itself fails, the discovery step returns a dictionary and raises nothing; the
  dictionary reports failure when the provider call raised and when neither parser
  found anything in the response. On a reported failure, and without a question count,
  the questions are exactly ten, with the ids 1 to 10, ungrouped, their point values
  null. On a reported success without any question, the questions are those numbered 1
  to \<^verbatim>\<open>total_questions\<close> when the response has such a positive number.
\<close>

theorem discovery_failure_fallback:
  assumes "m \<in> fst ` set api_keys" and "m \<noteq> []"
    and "\<forall>e. discover w m \<noteq> PreprocessRaises e"
  shows "\<exists>sr. analyze_exam_structure w api_keys (Some m) = Inr sr
          \<and> ((\<exists>e. discover w m = SetupRaises e \<or> discover w m = ApiRaises e) \<longrightarrow>
                \<not> truthy (dict_get_default sr (py ''success'') (JBool False)))
          \<and> (\<forall>c. discover w m = Content c
                  \<and> parse_grading_response (float_of_str w) (clean_text w) c 100 = Inr None
                  \<and> \<not> truthy (extract_json_from_text c) \<longrightarrow>
                \<not> truthy (dict_get_default sr (py ''success'') (JBool False)))
          \<and> (\<not> truthy (dict_get_default sr (py ''success'') (JBool False)) \<longrightarrow>
                questions_to_grade w api_keys None m text_scores
                  = Inr (map numbered_question
                           [py ''1'', py ''2'', py ''3'', py ''4'', py ''5'', py ''6'', py ''7'',
                            py ''8'', py ''9'', py ''10'']))
          \<and> (\<forall>n. truthy (dict_get_default sr (py ''success'') (JBool False))
                  \<and> discovered_questions w text_scores sr = Inr []
                  \<and> dict_get_default sr (py ''total_questions'') (JInt 0) = JInt n \<and> 0 < n \<longrightarrow>
                questions_to_grade w api_keys None m text_scores = Inr (numbered_questions n))"
proof -
  from analyze_with_model_returns [OF assms(3)] obtain sr where
    sr: "analyze_with_model w m = Inr sr" by blast
  have 0: "analyze_exam_structure w api_keys (Some m) = Inr sr"
    using sr analyze_model [OF assms(1,2)] by simp
  have 1: "(\<exists>e. discover w m = SetupRaises e \<or> discover w m = ApiRaises e) \<longrightarrow>
                \<not> truthy (dict_get_default sr (py ''success'') (JBool False))"
    using analyze_with_model_raises [OF _ sr] by blast
  have 2: "\<forall>c. discover w m = Content c
                  \<and> parse_grading_response (float_of_str w) (clean_text w) c 100 = Inr None
                  \<and> \<not> truthy (extract_json_from_text c) \<longrightarrow>
                \<not> truthy (dict_get_default sr (py ''success'') (JBool False))"
    using analyze_with_model_unparseable [OF _ _ _ sr] by blast
  have 3: "\<not> truthy (dict_get_default sr (py ''success'') (JBool False)) \<longrightarrow>
                questions_to_grade w api_keys None m text_scores
                  = Inr (map numbered_question
                           [py ''1'', py ''2'', py ''3'', py ''4'', py ''5'', py ''6'', py ''7'',
                            py ''8'', py ''9'', py ''10''])"
    by (simp add: questions_to_grade_def 0 questions_from_structure_def numbered_questions_10)
  have 4: "\<forall>n. truthy (dict_get_default sr (py ''success'') (JBool False))
                  \<and> discovered_questions w text_scores sr = Inr []
                  \<and> dict_get_default sr (py ''total_questions'') (JInt 0) = JInt n \<and> 0 < n \<longrightarrow>
                questions_to_grade w api_keys None m text_scores = Inr (numbered_questions n)"
    by (simp add: questions_to_grade_def 0 questions_from_structure_def py_positive_def
        py_index_def)
  from 0 1 2 3 4 show ?thesis by blast
qed

theorem discovery_failure_fallback_witness:
  "py ''qwen-vl-max'' \<in> fst ` set [(py ''qwen-vl-max'', py ''k1'')]
   \<and> py ''qwen-vl-max'' \<noteq> []
   \<and> (\<forall>e. discover (quiet_world Map.empty (\<lambda>m. ApiRaises (py ''timeout''))) (py ''qwen-vl-max'')
            \<noteq> PreprocessRaises e)
   \<and> questions_to_grade (quiet_world Map.empty (\<lambda>m. ApiRaises (py ''timeout'')))
        [(py ''qwen-vl-max'', py ''k1'')] None (py ''qwen-vl-max'') []
      = Inr (map numbered_question
               [py ''1'', py ''2'', py ''3'', py ''4'', py ''5'', py ''6'', py ''7'',
                py ''8'', py ''9'', py ''10''])"
proof -
  let ?w = "quiet_world Map.empty (\<lambda>m. ApiRaises (py ''timeout''))"
  have h1: "py ''qwen-vl-max'' \<in> fst ` set [(py ''qwen-vl-max'', py ''k1'')]"
    by simp
  have h2: "py ''qwen-vl-max'' \<noteq> []"
    by (simp add: py_def)
  have h3: "\<forall>e. discover ?w (py ''qwen-vl-max'') \<noteq> PreprocessRaises e"
    by (simp add: quiet_world_def)
  have h4: "\<exists>e. discover ?w (py ''qwen-vl-max'') = SetupRaises e
               \<or> discover ?w (py ''qwen-vl-max'') = ApiRaises e"
    by (simp add: quiet_world_def)
  from discovery_failure_fallback [OF h1 h2 h3, of "[]"] h1 h2 h3 h4 show ?thesis
    by blast
qed


text \<open>
  C5 as stated fails for an empty question list: a response with no question and
  \<^verbatim>\<open>total_questions\<close> 3 gives three questions, not ten; one without
  \<^verbatim>\<open>total_questions\<close> gives no question at all; and a response whose groups are not
  objects raises.
\<close>

theorem discovery_failure_fallback_counterexample:
  \<open>questions_to_grade
      (quiet_world Map.empty (\<lambda>m. Content (py ''{"groups":[],"total_questions":3}'')))
      [(py ''qwen-vl-max'', py ''k1'')] None (py ''qwen-vl-max'') []
    = Inr (map numbered_question [py ''1'', py ''2'', py ''3''])
   \<and> questions_to_grade
      (quiet_world Map.empty (\<lambda>m. Content (py ''{"groups":[]}'')))
      [(py ''qwen-vl-max'', py ''k1'')] None (py ''qwen-vl-max'') []
    = Inr []
   \<and> questions_to_grade
      (quiet_world Map.empty (\<lambda>m. Content (py ''{"groups":[1]}'')))
      [(py ''qwen-vl-max'', py ''k1'')] None (py ''qwen-vl-max'') []
    = Inl AttributeError\<close>
  by (simp add: pipeline_eval structure_eval parser_eval value_eval)


section \<open>The failed state of a task\<close>

lemma exam_failure_iff:
  "grade_exam_with_multiple_models w api_keys qc ms sel ts = Inr (ExamFailure msg)
     \<longleftrightarrow> available_models api_keys sel = [] \<and> msg = msg_no_models"
  by (auto simp: grade_exam_with_multiple_models_def Let_def split: list.splits sum.splits option.splits)

lemma status_distinct: "py ''error'' \<noteq> py ''completed''"
  by (simp add: py_def)


text \<open>
  C8, as the code has it. When the run has no provider (the selection is not empty and
  none of its providers has a credential, or the selection is empty and there is no
  credential at all), the task ends with the error status, the message of the missing
  providers, and no report. The task ends with the error status exactly when the run
  has no provider, or an exception leaves the grading, or writing the report fails; a
  task with the error status has no report. An empty selection stands for all providers
  with a credential.
\<close>

theorem failed_state_paths:
  "(available_models (init_api_keys (getenv w) []) selected = [] \<longrightarrow>
      run_grading_task w qc ms selected ts
        = \<lparr> task_status = py ''error'', task_error = Some msg_no_models, task_report = None \<rparr>)
   \<and> (task_status (run_grading_task w qc ms selected ts) = py ''error''
        \<longleftrightarrow> available_models (init_api_keys (getenv w) []) selected = []
            \<or> (\<exists>e. grade_exam_with_multiple_models w (init_api_keys (getenv w) []) qc ms selected ts
                      = Inl e)
            \<or> save_raises w \<noteq> None)
   \<and> (task_status (run_grading_task w qc ms selected ts) = py ''error''
        \<longrightarrow> task_report (run_grading_task w qc ms selected ts) = None)
   \<and> available_models api_keys [] = map fst api_keys"
proof -
  let ?keys = "init_api_keys (getenv w) []"
  let ?g = "grade_exam_with_multiple_models w ?keys qc ms selected ts"
  have 1: "available_models ?keys selected = [] \<longrightarrow>
      run_grading_task w qc ms selected ts
        = \<lparr> task_status = py ''error'', task_error = Some msg_no_models, task_report = None \<rparr>"
    by (simp add: run_grading_task_def grade_exam_with_multiple_models_def)
  have 2: "task_status (run_grading_task w qc ms selected ts) = py ''error''
        \<longleftrightarrow> available_models ?keys selected = [] \<or> (\<exists>e. ?g = Inl e) \<or> save_raises w \<noteq> None"
  proof (cases ?g)
    case (Inl e)
    then show ?thesis by (simp add: run_grading_task_def)
  next
    case (Inr out)
    show ?thesis
    proof (cases out)
      case (ExamFailure msg)
      with Inr exam_failure_iff [of w ?keys qc ms selected ts msg] show ?thesis
        by (simp add: run_grading_task_def)
    next
      case (ExamSuccess a r)
      have "available_models ?keys selected \<noteq> []"
        using Inr ExamSuccess exam_failure_iff [of w ?keys qc ms selected ts msg_no_models]
        by (auto simp: grade_exam_with_multiple_models_def)
      with Inr ExamSuccess show ?thesis
        using status_distinct by (auto simp: run_grading_task_def split: option.splits)
    qed
  qed
  have 3: "task_status (run_grading_task w qc ms selected ts) = py ''error''
        \<longrightarrow> task_report (run_grading_task w qc ms selected ts) = None"
    using status_distinct
    by (auto simp: run_grading_task_def split: sum.splits exam_outcome.splits option.splits)
  have 4: "available_models api_keys [] = map fst api_keys"
    by (simp add: available_models_def)
  from 1 2 3 4 show ?thesis by blast
qed


theorem failed_state_paths_witness:
  "available_models (init_api_keys (getenv (quiet_world Map.empty (\<lambda>m. Content []))) [])
     [py ''qwen-vl-max''] = []
   \<and> run_grading_task (quiet_world Map.empty (\<lambda>m. Content [])) None None [py ''qwen-vl-max''] []
       = \<lparr> task_status = py ''error'', task_error = Some msg_no_models, task_report = None \<rparr>"
proof -
  let ?w = "quiet_world Map.empty (\<lambda>m. Content [])"
  have h: "available_models (init_api_keys (getenv ?w) []) [py ''qwen-vl-max''] = []"
    by (simp add: available_models_def init_api_keys_def quiet_world_def)
  from failed_state_paths [of ?w "[py ''qwen-vl-max'']" None None "[]" "[]"] h show ?thesis
    by blast
qed

text \<open>
  C8 as stated fails: with a credential for the selected provider, a response without
  score ends the task with the error status, through the exception of the missing key;
  and a task with an empty selection and a credential is completed.
\<close>

theorem failed_state_paths_counterexample:
  \<open>run_grading_task
      (quiet_world (\<lambda>k. if k = py ''DASHSCOPE_API_KEY'' then Some (py ''k1'') else None)
         (\<lambda>m. Content (py ''{"comment":"ok"}'')))
      (Some 1) (Some 10) [py ''qwen-vl-max''] []
    = \<lparr> task_status = py ''error'', task_error = Some ([39] @ py ''score'' @ [39]),
        task_report = None \<rparr>
   \<and> available_models
        (init_api_keys (\<lambda>k. if k = py ''DASHSCOPE_API_KEY'' then Some (py ''k1'') else None) [])
        [py ''qwen-vl-max'']
      = [py ''qwen-vl-max'']
   \<and> task_status
        (run_grading_task
           (quiet_world (\<lambda>k. if k = py ''DASHSCOPE_API_KEY'' then Some (py ''k1'') else None)
              (\<lambda>m. Content (py ''{"score":8,"is_correct":true}'')))
           (Some 1) (Some 10) [] [])
      = py ''completed''\<close>
  by (simp add: pipeline_eval parser_eval combine_eval value_eval)



section \<open>What the response parser recovers\<close>

subsection \<open>Text without an opening brace\<close>























subsection \<open>Objects, fenced objects and truncated objects\<close>






















end
